theory Spec2Isabelle
  imports Complex_Main "HOL-Library.AList"
begin

section \<open>ShotMaster: settings hierarchy, output paths and render orchestration\<close>

text \<open>
  A shallow embedding of \<^verbatim>\<open>ShotMasterManager\<close> (shotmaster_1_4.py): the property groups
  as records, the shared \<^verbatim>\<open>bpy.context\<close> as an explicit scene state, and the host
  application (path expansion, property setters that reject a value, directory creation,
  the render operators, the clock) as a record of parameters.
\<close>

subsection \<open>Property groups\<close>

record named =
  name :: string

text \<open>\<^verbatim>\<open>class RenderPass(PropertyGroup)\<close>\<close>

record render_pass = named +
  enabled :: bool
  pass_type :: string

text \<open>
  \<^verbatim>\<open>class CameraGroup(PropertyGroup)\<close>. The fields that \<^verbatim>\<open>ShotMasterCamera\<close> declares
  under the same names are declared once here and inherited by the camera record.
\<close>

record camera_group = named +
  use_custom_output_path :: bool
  output_path :: string
  use_custom_render_settings :: bool
  render_engine :: string
  cycles_samples :: int
  eevee_samples :: int
  use_custom_resolution :: bool
  resolution_x :: int
  resolution_y :: int
  resolution_percentage :: int
  use_custom_view_layer :: bool
  view_layer :: string

text \<open>
  A camera object: \<^verbatim>\<open>camera.name\<close>, \<^verbatim>\<open>camera.type\<close> and the fields of
  \<^verbatim>\<open>camera.shotmaster_camera\<close> (\<^verbatim>\<open>class ShotMasterCamera(PropertyGroup)\<close>).
\<close>

record camera = camera_group +
  obj_type :: string
  group :: string
  use_render_passes :: bool
  render_passes :: "render_pass list"
  file_format :: string
  filename :: string
  use_custom_frames :: bool
  start_frame :: int
  end_frame :: int

text \<open>\<^verbatim>\<open>class ShotMasterSettings(PropertyGroup)\<close>\<close>

record settings =
  master_start_frame :: int
  master_end_frame :: int
  master_output_path :: string
  master_resolution_x :: int
  master_resolution_y :: int
  master_resolution_percentage :: int
  master_render_engine :: string
  master_cycles_samples :: int
  master_eevee_samples :: int
  total_renders :: int
  last_render_time :: real
  total_render_time :: real

subsection \<open>The scene and the host\<close>

text \<open>
  One call of a render operator, as the host saw it: \<^verbatim>\<open>bpy.ops.render.render\<close> with the
  \<^verbatim>\<open>render.filepath\<close> current at the call, the animation flag and whether it returned
  (\<open>True\<close>) or raised; or \<^verbatim>\<open>bpy.ops.render.opengl\<close>.
\<close>

datatype engine_call = Render string bool bool | OpenGL bool

text \<open>
  The part of \<^verbatim>\<open>bpy.context\<close> the manager reads and writes. \<open>engine_log\<close> is the trace of
  render operator calls; it is not a field of the host, it records what the host was asked.
\<close>

record scene =
  scene_render_engine :: string
  render_resolution_x :: int
  render_resolution_y :: int
  render_resolution_percentage :: int
  render_filepath :: string
  render_file_format :: string
  scene_camera :: "camera option"
  frame_start :: int
  frame_end :: int
  scene_cycles_samples :: int
  scene_eevee_taa_render_samples :: int
  window_view_layer :: string
  view_layers :: "string list"
  shotmaster_settings :: settings
  shotmaster_camera_groups :: "camera_group list"
  engine_log :: "engine_call list"

text \<open>
  What the host decides: \<^verbatim>\<open>bpy.path.abspath\<close>; whether assigning an engine identifier to
  \<^verbatim>\<open>render.engine\<close> is accepted (an identifier the running host does not register raises
  \<^verbatim>\<open>TypeError\<close>); the value each range-checked property keeps when a value is assigned to
  it (\<^verbatim>\<open>render.resolution_x\<close>, \<^verbatim>\<open>render.resolution_y\<close>,
  \<^verbatim>\<open>render.resolution_percentage\<close>, \<^verbatim>\<open>scene.cycles.samples\<close>,
  \<^verbatim>\<open>scene.eevee.taa_render_samples\<close>: the host clamps to the property's range); what an
  assignment to \<^verbatim>\<open>scene.frame_start\<close> or \<^verbatim>\<open>scene.frame_end\<close> makes of the pair (start, end)
  (the host clamps the value and moves the other end to keep start \<open>\<le>\<close> end); whether
  \<^verbatim>\<open>os.makedirs(path, exist_ok=True)\<close> returns; whether the \<open>n\<close>-th call of
  \<^verbatim>\<open>bpy.ops.render.render\<close> returns; whether \<^verbatim>\<open>bpy.ops.render.opengl\<close> returns; the two
  readings of \<^verbatim>\<open>time.time()\<close>; the difference and the sum of two Python floats; and the value
  a \<^verbatim>\<open>FloatProperty(min=0.0)\<close> keeps when a float is assigned to it (single precision, not
  below 0).
\<close>

record host =
  abspath :: "string \<Rightarrow> string"
  engine_ok :: "string \<Rightarrow> bool"
  resolution_x_kept :: "int \<Rightarrow> int"
  resolution_y_kept :: "int \<Rightarrow> int"
  percentage_kept :: "int \<Rightarrow> int"
  cycles_samples_kept :: "int \<Rightarrow> int"
  eevee_samples_kept :: "int \<Rightarrow> int"
  assign_frame_start :: "int \<Rightarrow> int \<times> int \<Rightarrow> int \<times> int"
  assign_frame_end :: "int \<Rightarrow> int \<times> int \<Rightarrow> int \<times> int"
  makedirs_ok :: "string \<Rightarrow> bool"
  render_ok :: "nat \<Rightarrow> bool"
  opengl_ok :: bool
  time_start :: real
  time_end :: real
  float_sub :: "real \<Rightarrow> real \<Rightarrow> real"
  float_add :: "real \<Rightarrow> real \<Rightarrow> real"
  duration_kept :: "real \<Rightarrow> real"

datatype error = TypeError | OSError | RuntimeError | NameError | OverflowError

subsection \<open>Strings and paths\<close>

text \<open>
  A character is a code point below 256. \<^verbatim>\<open>str.isalnum\<close> and \<^verbatim>\<open>str.isspace\<close> on that range.
\<close>

definition py_isalnum :: "char \<Rightarrow> bool" where
  "py_isalnum c =
     (let n = (of_char c :: nat)
      in (48 \<le> n \<and> n \<le> 57) \<or> (65 \<le> n \<and> n \<le> 90) \<or> (97 \<le> n \<and> n \<le> 122)
         \<or> n = 170 \<or> n = 178 \<or> n = 179 \<or> n = 181 \<or> n = 185 \<or> n = 186
         \<or> (188 \<le> n \<and> n \<le> 190) \<or> (192 \<le> n \<and> n \<le> 214)
         \<or> (216 \<le> n \<and> n \<le> 246) \<or> (248 \<le> n \<and> n \<le> 255))"

definition py_isspace :: "char \<Rightarrow> bool" where
  "py_isspace c =
     (let n = (of_char c :: nat)
      in (9 \<le> n \<and> n \<le> 13) \<or> (28 \<le> n \<and> n \<le> 32) \<or> n = 133 \<or> n = 160)"

text \<open>\<^verbatim>\<open>s.strip()\<close>\<close>

definition strip :: "string \<Rightarrow> string" where
  "strip s = rev (dropWhile py_isspace (rev (dropWhile py_isspace s)))"

text \<open>\<^verbatim>\<open>s.replace(" ", "_")\<close>\<close>

definition replace_spaces :: "string \<Rightarrow> string" where
  "replace_spaces s = map (\<lambda>c. if c = CHR '' '' then CHR ''_'' else c) s"

text \<open>
  The expression the source writes out twice, for the group name and for the camera name:
  \<^verbatim>\<open>"".join(c for c in n if c.isalnum() or c in " _-").strip().replace(" ", "_")\<close>
\<close>

definition sanitize :: "string \<Rightarrow> string" where
  "sanitize n =
     replace_spaces (strip (filter (\<lambda>c. py_isalnum c \<or> c \<in> set '' _-'') n))"

text \<open>\<^verbatim>\<open>os.path.join(a, *p)\<close> of \<^verbatim>\<open>posixpath\<close>.\<close>

fun path_join :: "string \<Rightarrow> string list \<Rightarrow> string" where
  "path_join path [] = path"
| "path_join path (b # p) =
     (if b \<noteq> [] \<and> hd b = CHR ''/'' then path_join b p
      else if path = [] \<or> last path = CHR ''/'' then path_join (path @ b) p
      else path_join (path @ ''/'' @ b) p)"

subsection \<open>Output path\<close>

text \<open>\<^verbatim>\<open>ShotMasterManager.get_camera_output_path\<close>. A pass name is \<open>None\<close> or a string.\<close>

definition get_camera_output_path ::
  "host \<Rightarrow> scene \<Rightarrow> camera \<Rightarrow> bool \<Rightarrow> string option \<Rightarrow> string" where
  "get_camera_output_path h s cam render_animation pass_name =
     (let base_path = abspath h (master_output_path (shotmaster_settings s));
          group_name = group cam;
          base_path =
            (if group_name \<noteq> [] then
               (case find (\<lambda>g. name g = group_name \<and> use_custom_output_path g)
                       (shotmaster_camera_groups s) of
                  Some g \<Rightarrow> if output_path g \<noteq> [] then abspath h (output_path g) else base_path
                | None \<Rightarrow> base_path)
             else base_path);
          base_path =
            (if use_custom_output_path cam \<and> output_path cam \<noteq> []
             then abspath h (output_path cam) else base_path);
          group_path =
            (if group_name \<noteq> [] then path_join base_path [sanitize group_name]
             else path_join base_path [''ungrouped'']);
          sanitized_camera_name = sanitize (name cam)
      in if render_animation then
           (case pass_name of
              None \<Rightarrow> path_join group_path [sanitized_camera_name, ''animation'']
            | Some p \<Rightarrow>
                if p \<noteq> [] then path_join group_path [sanitized_camera_name, ''animation'', p]
                else path_join group_path [sanitized_camera_name, ''animation''])
         else
           (case pass_name of
              None \<Rightarrow> path_join group_path [sanitized_camera_name, ''stills'']
            | Some p \<Rightarrow>
                if p \<noteq> [] then path_join group_path [sanitized_camera_name, ''stills'', p]
                else path_join group_path [sanitized_camera_name, ''stills'']))"

subsection \<open>Applying and restoring render settings\<close>

text \<open>The dictionary \<^verbatim>\<open>original_settings\<close> and its nine keys.\<close>

record original_settings =
  orig_engine :: string
  orig_resolution_x :: int
  orig_resolution_y :: int
  orig_resolution_percentage :: int
  orig_filepath :: string
  orig_file_format :: string
  orig_active_camera :: "camera option"
  orig_frame_start :: int
  orig_frame_end :: int

text \<open>\<^verbatim>\<open>render.engine = e\<close>: the host accepts the identifier or raises.\<close>

definition set_engine :: "host \<Rightarrow> string \<Rightarrow> scene \<Rightarrow> error + scene" where
  "set_engine h e s = (if engine_ok h e then Inr (s\<lparr>scene_render_engine := e\<rparr>) else Inl TypeError)"

text \<open>
  \<^verbatim>\<open>if render.engine == 'CYCLES': scene.cycles.samples = cyc\<close>
  \<^verbatim>\<open>elif render.engine == 'BLENDER_EEVEE': scene.eevee.taa_render_samples = eev\<close>
\<close>

definition set_samples :: "host \<Rightarrow> int \<Rightarrow> int \<Rightarrow> scene \<Rightarrow> scene" where
  "set_samples h cyc eev s =
     (if scene_render_engine s = ''CYCLES''
      then s\<lparr>scene_cycles_samples := cycles_samples_kept h cyc\<rparr>
      else if scene_render_engine s = ''BLENDER_EEVEE''
      then s\<lparr>scene_eevee_taa_render_samples := eevee_samples_kept h eev\<rparr>
      else s)"

text \<open>
  The three assignments \<^verbatim>\<open>render.resolution_x = x\<close>, \<^verbatim>\<open>render.resolution_y = y\<close>,
  \<^verbatim>\<open>render.resolution_percentage = p\<close>, each keeping what the host keeps.
\<close>

definition set_resolution :: "host \<Rightarrow> int \<Rightarrow> int \<Rightarrow> int \<Rightarrow> scene \<Rightarrow> scene" where
  "set_resolution h x y p s =
     s\<lparr>render_resolution_x := resolution_x_kept h x,
       render_resolution_y := resolution_y_kept h y,
       render_resolution_percentage := percentage_kept h p\<rparr>"

text \<open>\<^verbatim>\<open>scene.frame_start = v\<close> and \<^verbatim>\<open>scene.frame_end = v\<close>\<close>

definition set_frame_start :: "host \<Rightarrow> int \<Rightarrow> scene \<Rightarrow> scene" where
  "set_frame_start h v s =
     (let r = assign_frame_start h v (frame_start s, frame_end s)
      in s\<lparr>frame_start := fst r, frame_end := snd r\<rparr>)"

definition set_frame_end :: "host \<Rightarrow> int \<Rightarrow> scene \<Rightarrow> scene" where
  "set_frame_end h v s =
     (let r = assign_frame_end h v (frame_start s, frame_end s)
      in s\<lparr>frame_start := fst r, frame_end := snd r\<rparr>)"

text \<open>"Start with master settings". The engine assignment is the first write.\<close>

definition apply_master :: "host \<Rightarrow> scene \<Rightarrow> error + scene" where
  "apply_master h s =
     (let m = shotmaster_settings s
      in case set_engine h (master_render_engine m) s of
           Inl e \<Rightarrow> Inl e
         | Inr s1 \<Rightarrow>
             Inr (set_samples h (master_cycles_samples m) (master_eevee_samples m)
                    (set_resolution h (master_resolution_x m) (master_resolution_y m)
                       (master_resolution_percentage m) s1)))"

text \<open>
  The block under \<^verbatim>\<open>if x.use_custom_render_settings:\<close>, which the source writes once for
  the group and once for the camera: engine, then the resolution if
  \<^verbatim>\<open>x.use_custom_resolution\<close>, then the samples of the engine now set.
\<close>

definition apply_render_settings :: "host \<Rightarrow> 'a camera_group_scheme \<Rightarrow> scene \<Rightarrow> error + scene" where
  "apply_render_settings h x s =
     (if use_custom_render_settings x then
        (case set_engine h (render_engine x) s of
           Inl e \<Rightarrow> Inl e
         | Inr s1 \<Rightarrow>
             Inr (set_samples h (cycles_samples x) (eevee_samples x)
                    (if use_custom_resolution x
                     then set_resolution h (resolution_x x) (resolution_y x) (resolution_percentage x) s1
                     else s1)))
      else Inr s)"

text \<open>
  \<^verbatim>\<open>if x.use_custom_view_layer and x.view_layer in scene.view_layers:\<close>
  \<^verbatim>\<open>    window.view_layer = scene.view_layers[x.view_layer]\<close>
\<close>

definition apply_view_layer :: "'a camera_group_scheme \<Rightarrow> scene \<Rightarrow> scene" where
  "apply_view_layer x s =
     (if use_custom_view_layer x \<and> view_layer x \<in> set (view_layers s)
      then s\<lparr>window_view_layer := view_layer x\<rparr> else s)"

text \<open>"Apply group settings if applicable": the first group of that name, then \<^verbatim>\<open>break\<close>.\<close>

definition apply_group :: "host \<Rightarrow> camera \<Rightarrow> scene \<Rightarrow> error + scene" where
  "apply_group h cam s =
     (if group cam \<noteq> [] then
        (case find (\<lambda>g. name g = group cam) (shotmaster_camera_groups s) of
           None \<Rightarrow> Inr s
         | Some g \<Rightarrow>
             (case apply_render_settings h g s of
                Inl e \<Rightarrow> Inl e
              | Inr s1 \<Rightarrow> Inr (apply_view_layer g s1)))
      else Inr s)"

text \<open>"Finally apply camera-specific settings", the view layer, the frame range, the active
  camera and the file format.\<close>

definition apply_camera :: "host \<Rightarrow> camera \<Rightarrow> bool \<Rightarrow> scene \<Rightarrow> error + scene" where
  "apply_camera h cam is_viewport s =
     (case apply_render_settings h cam s of
        Inl e \<Rightarrow> Inl e
      | Inr s1 \<Rightarrow>
          (let s2 = apply_view_layer cam s1;
               s3 = (if use_custom_frames cam
                     then set_frame_end h (end_frame cam) (set_frame_start h (start_frame cam) s2)
                     else set_frame_end h (master_end_frame (shotmaster_settings s2))
                            (set_frame_start h (master_start_frame (shotmaster_settings s2)) s2));
               s4 = s3\<lparr>scene_camera := Some cam\<rparr>
           in Inr (if is_viewport then s4 else s4\<lparr>render_file_format := file_format cam\<rparr>)))"

definition snapshot :: "scene \<Rightarrow> original_settings" where
  "snapshot s =
     \<lparr>orig_engine = scene_render_engine s,
      orig_resolution_x = render_resolution_x s,
      orig_resolution_y = render_resolution_y s,
      orig_resolution_percentage = render_resolution_percentage s,
      orig_filepath = render_filepath s,
      orig_file_format = render_file_format s,
      orig_active_camera = scene_camera s,
      orig_frame_start = frame_start s,
      orig_frame_end = frame_end s\<rparr>"

text \<open>
  \<^verbatim>\<open>ShotMasterManager.setup_render_settings\<close>. It returns the snapshot, or raises where the
  host rejects an engine; the second component is the scene as the call leaves it. In each of
  the three stages the engine assignment comes before every other write of the stage, so a
  stage that raises leaves the scene as the stage found it.
\<close>

definition setup_render_settings ::
  "host \<Rightarrow> camera \<Rightarrow> bool \<Rightarrow> scene \<Rightarrow> (error + original_settings) \<times> scene" where
  "setup_render_settings h cam is_viewport s =
     (let original = snapshot s
      in case apply_master h s of
           Inl e \<Rightarrow> (Inl e, s)
         | Inr s1 \<Rightarrow>
             (case apply_group h cam s1 of
                Inl e \<Rightarrow> (Inl e, s1)
              | Inr s2 \<Rightarrow>
                  (case apply_camera h cam is_viewport s2 of
                     Inl e \<Rightarrow> (Inl e, s2)
                   | Inr s3 \<Rightarrow> (Inr original, s3))))"

text \<open>
  \<^verbatim>\<open>ShotMasterManager.restore_render_settings\<close>. The values written back were read from
  the host's own properties, which keep them as they are.
\<close>

definition restore_render_settings :: "original_settings \<Rightarrow> scene \<Rightarrow> scene" where
  "restore_render_settings original s =
     s\<lparr>scene_render_engine := orig_engine original,
       render_resolution_x := orig_resolution_x original,
       render_resolution_y := orig_resolution_y original,
       render_resolution_percentage := orig_resolution_percentage original,
       render_filepath := orig_filepath original,
       render_file_format := orig_file_format original,
       scene_camera := orig_active_camera original,
       frame_start := orig_frame_start original,
       frame_end := orig_frame_end original\<rparr>"

subsection \<open>Rendering\<close>

text \<open>"Get passes to render": the names of the enabled passes, or a single \<^verbatim>\<open>None\<close>.\<close>

definition passes_to_render :: "camera \<Rightarrow> string option list" where
  "passes_to_render cam =
     (if use_render_passes cam
      then map (\<lambda>pass_item. Some (name pass_item)) (filter enabled (render_passes cam))
      else [None])"

text \<open>
  The body of \<^verbatim>\<open>for pass_name in passes_to_render\<close>, a \<^verbatim>\<open>try\<close> whose handler prints and
  goes on. The state is the flag \<^verbatim>\<open>success\<close> and the scene.
\<close>

definition render_pass_step ::
  "host \<Rightarrow> camera \<Rightarrow> bool \<Rightarrow> string option \<Rightarrow> bool \<times> scene \<Rightarrow> bool \<times> scene" where
  "render_pass_step h cam render_animation pass_name st =
     (let success = fst st; s = snd st;
          output_dir = get_camera_output_path h s cam render_animation pass_name;
          made = (if makedirs_ok h output_dir then Inr output_dir
                  else if makedirs_ok h (abspath h ''//renders/'') then Inr (abspath h ''//renders/'')
                  else Inl OSError)
      in case made of
           Inl e \<Rightarrow> (success, s)
         | Inr output_dir \<Rightarrow>
             (let pass_suffix = (case pass_name of
                                   None \<Rightarrow> []
                                 | Some p \<Rightarrow> if p \<noteq> [] then ''_'' @ p else []);
                  fname = filename cam @ ''_'' @ name cam @ pass_suffix;
                  s1 = s\<lparr>render_filepath := path_join output_dir [fname]\<rparr>;
                  ok = render_ok h (length (engine_log s1));
                  s2 = s1\<lparr>engine_log := engine_log s1 @ [Render (render_filepath s1) render_animation ok]\<rparr>
              in if ok then (True, s2) else (success, s2)))"

fun render_each_pass ::
  "host \<Rightarrow> camera \<Rightarrow> bool \<Rightarrow> string option list \<Rightarrow> bool \<times> scene \<Rightarrow> bool \<times> scene" where
  "render_each_pass h cam render_animation [] st = st"
| "render_each_pass h cam render_animation (pass_name # rest) st =
     render_each_pass h cam render_animation rest (render_pass_step h cam render_animation pass_name st)"

text \<open>The statements between the call of setup and "Update render statistics".\<close>

definition render_body :: "host \<Rightarrow> camera \<Rightarrow> bool \<Rightarrow> bool \<Rightarrow> scene \<Rightarrow> (error + bool) \<times> scene" where
  "render_body h cam render_animation is_viewport s =
     (if is_viewport then
        (if render_animation then (Inr False, s)
         else if opengl_ok h then (Inr True, s\<lparr>engine_log := engine_log s @ [OpenGL True]\<rparr>)
         else (Inl RuntimeError, s\<lparr>engine_log := engine_log s @ [OpenGL False]\<rparr>))
      else
        (let r = render_each_pass h cam render_animation (passes_to_render cam) (False, s)
         in (Inr (fst r), snd r)))"

text \<open>
  "Update render statistics". \<^verbatim>\<open>total_renders\<close> is an \<^verbatim>\<open>IntProperty\<close>, a C int: the
  assignment of a value above 2147483647 raises, before either duration is written. The
  durations are \<^verbatim>\<open>FloatProperty(min=0.0)\<close>.
\<close>

definition update_statistics :: "host \<Rightarrow> scene \<Rightarrow> error + scene" where
  "update_statistics h s =
     (let render_time = float_sub h (time_end h) (time_start h); m = shotmaster_settings s
      in if total_renders m + 1 > 2147483647 then Inl OverflowError
         else Inr (s\<lparr>shotmaster_settings :=
                       m\<lparr>total_renders := total_renders m + 1,
                         last_render_time := duration_kept h render_time,
                         total_render_time :=
                           duration_kept h (float_add h (total_render_time m) render_time)\<rparr>\<rparr>))"

text \<open>
  The \<^verbatim>\<open>finally\<close> block. \<^verbatim>\<open>original_settings\<close> is bound by the assignment that follows the
  return of setup; where setup raised, the name is unbound, the call of restore raises
  \<^verbatim>\<open>NameError\<close>, and the handler inside \<^verbatim>\<open>finally\<close> prints it.
\<close>

definition finally_restore :: "original_settings option \<Rightarrow> scene \<Rightarrow> scene" where
  "finally_restore original s =
     (case original of None \<Rightarrow> s | Some original \<Rightarrow> restore_render_settings original s)"

text \<open>
  \<^verbatim>\<open>ShotMasterManager.render_from_camera\<close>: the returned flag and the scene afterwards. An
  exception that leaves setup, the viewport render or the statistics update reaches the
  outer handler, which returns \<^verbatim>\<open>False\<close>; \<^verbatim>\<open>finally\<close> runs on every path.
\<close>

definition render_from_camera ::
  "host \<Rightarrow> camera option \<Rightarrow> bool \<Rightarrow> bool \<Rightarrow> scene \<Rightarrow> bool \<times> scene" where
  "render_from_camera h camera render_animation is_viewport s =
     (case camera of
        None \<Rightarrow> (False, s)
      | Some cam \<Rightarrow>
          if obj_type cam \<noteq> ''CAMERA'' then (False, s)
          else
            (case setup_render_settings h cam is_viewport s of
               (Inl e, s1) \<Rightarrow> (False, finally_restore None s1)
             | (Inr original, s1) \<Rightarrow>
                 (case render_body h cam render_animation is_viewport s1 of
                    (Inl e, s2) \<Rightarrow> (False, finally_restore (Some original) s2)
                  | (Inr success, s2) \<Rightarrow>
                      (case update_statistics h s2 of
                         Inl e \<Rightarrow> (False, finally_restore (Some original) s2)
                       | Inr s3 \<Rightarrow> (success, finally_restore (Some original) s3)))))"

subsection \<open>Statistics\<close>

text \<open>
  \<^verbatim>\<open>ShotMasterManager.get_camera_statistics\<close>, the engine counts: the expression that
  chooses the engine a camera is counted under, and the loop over the cameras that adds one
  to that key of \<^verbatim>\<open>stats['render_engines']\<close> (a key outside the three raises \<^verbatim>\<open>KeyError\<close>,
  here \<open>None\<close>).
\<close>

definition stats_engine :: "scene \<Rightarrow> camera \<Rightarrow> string" where
  "stats_engine s cam =
     (if use_custom_render_settings cam then render_engine cam
      else master_render_engine (shotmaster_settings s))"

fun count_render_engines :: "scene \<Rightarrow> camera list \<Rightarrow> (string \<times> int) list \<Rightarrow> (string \<times> int) list option" where
  "count_render_engines s [] counts = Some counts"
| "count_render_engines s (cam # cams) counts =
     (case map_of counts (stats_engine s cam) of
        None \<Rightarrow> None
      | Some n \<Rightarrow> count_render_engines s cams (AList.update (stats_engine s cam) (n + 1) counts))"

definition render_engines_stats :: "scene \<Rightarrow> camera list \<Rightarrow> (string \<times> int) list option" where
  "render_engines_stats s all_cameras =
     count_render_engines s all_cameras
       [(''CYCLES'', 0), (''BLENDER_EEVEE'', 0), (''BLENDER_WORKBENCH'', 0)]"

subsection \<open>Characters of a sanitized name\<close>

definition segment_char :: "char \<Rightarrow> bool" where
  "segment_char c = (py_isalnum c \<or> c = CHR ''_'' \<or> c = CHR ''-'')"


subsection \<open>Example data\<close>

text \<open>
  The defaults the property declarations give, a scene, and a host that refuses nothing,
  clamps resolutions, sample counts and frames to a range, keeps start \<open>\<le>\<close> end, and
  computes the durations of the example exactly.
\<close>

definition default_settings :: settings where
  "default_settings =
     \<lparr>master_start_frame = 1, master_end_frame = 250, master_output_path = ''//renders/'',
      master_resolution_x = 1920, master_resolution_y = 1080, master_resolution_percentage = 100,
      master_render_engine = ''CYCLES'', master_cycles_samples = 128, master_eevee_samples = 64,
      total_renders = 0, last_render_time = 0, total_render_time = 0\<rparr>"

definition default_group :: "string \<Rightarrow> camera_group" where
  "default_group n =
     \<lparr>name = n, use_custom_output_path = False, output_path = [],
      use_custom_render_settings = False, render_engine = ''CYCLES'',
      cycles_samples = 128, eevee_samples = 64, use_custom_resolution = False,
      resolution_x = 1920, resolution_y = 1080, resolution_percentage = 100,
      use_custom_view_layer = False, view_layer = []\<rparr>"

definition default_camera :: "string \<Rightarrow> string \<Rightarrow> camera" where
  "default_camera n g =
     \<lparr>name = n, use_custom_output_path = False, output_path = [],
      use_custom_render_settings = False, render_engine = ''CYCLES'',
      cycles_samples = 128, eevee_samples = 64, use_custom_resolution = False,
      resolution_x = 1920, resolution_y = 1080, resolution_percentage = 100,
      use_custom_view_layer = False, view_layer = [],
      obj_type = ''CAMERA'', group = g, use_render_passes = False, render_passes = [],
      file_format = ''PNG'', filename = ''shot'', use_custom_frames = False,
      start_frame = 1, end_frame = 250\<rparr>"

definition studio_scene :: scene where
  "studio_scene =
     \<lparr>scene_render_engine = ''BLENDER_WORKBENCH'', render_resolution_x = 800,
      render_resolution_y = 600, render_resolution_percentage = 50,
      render_filepath = ''/tmp/'', render_file_format = ''JPEG'', scene_camera = None,
      frame_start = 10, frame_end = 20, scene_cycles_samples = 32,
      scene_eevee_taa_render_samples = 16, window_view_layer = ''ViewLayer'',
      view_layers = [''ViewLayer'', ''Alt''],
      shotmaster_settings = default_settings\<lparr>master_output_path := ''root/''\<rparr>,
      shotmaster_camera_groups = [default_group ''Ext''], engine_log = []\<rparr>"

definition clamp :: "int \<Rightarrow> int \<Rightarrow> int \<Rightarrow> int" where
  "clamp lo hi v = max lo (min hi v)"

definition plain_host :: host where
  "plain_host =
     \<lparr>abspath = (\<lambda>p. p), engine_ok = (\<lambda>e. True),
      resolution_x_kept = clamp 4 65536, resolution_y_kept = clamp 4 65536,
      percentage_kept = clamp 1 32767,
      cycles_samples_kept = clamp 1 16777216, eevee_samples_kept = clamp 1 2147483647,
      assign_frame_start =
        (\<lambda>v r. let v' = clamp 0 1048574 v in (v', if snd r < v' then v' else snd r)),
      assign_frame_end =
        (\<lambda>v r. let v' = clamp 0 1048574 v in (if v' < fst r then v' else fst r, v')),
      makedirs_ok = (\<lambda>p. True), render_ok = (\<lambda>n. True), opengl_ok = True,
      time_start = 0, time_end = 2,
      float_sub = (\<lambda>a b. a - b), float_add = (\<lambda>a b. a + b), duration_kept = max 0\<rparr>"



subsection \<open>Notions used in the statements\<close>

text \<open>
  The group record that setup consults for a camera: the first group of the camera's group
  name, none for an empty name or a name no group has.
\<close>

definition camera_group_of :: "scene \<Rightarrow> camera \<Rightarrow> camera_group option" where
  "camera_group_of s cam =
     (if group cam \<noteq> [] then find (\<lambda>g. name g = group cam) (shotmaster_camera_groups s) else None)"

text \<open>
  The group record that the output path consults: the first group of the camera's group name
  that has its output path toggle set.
\<close>

definition path_group_of :: "scene \<Rightarrow> camera \<Rightarrow> camera_group option" where
  "path_group_of s cam =
     (if group cam \<noteq> []
      then find (\<lambda>g. name g = group cam \<and> use_custom_output_path g) (shotmaster_camera_groups s)
      else None)"

definition frame_range :: "scene \<Rightarrow> int \<times> int" where
  "frame_range s = (frame_start s, frame_end s)"

text \<open>A group that switches its cameras to Eevee, and a camera that asks for its own resolution only.\<close>

definition eevee_group :: camera_group where
  "eevee_group = (default_group ''Ext'')\<lparr>use_custom_render_settings := True, render_engine := ''BLENDER_EEVEE''\<rparr>"

definition grouped_scene :: scene where
  "grouped_scene = studio_scene\<lparr>shotmaster_camera_groups := [eevee_group]\<rparr>"

definition wide_camera :: camera where
  "wide_camera = (default_camera ''Shot A'' [])\<lparr>use_custom_resolution := True, resolution_x := 640, resolution_y := 480\<rparr>"

text \<open>
  A camera that uses passes and has none enabled, and a host whose render operator always
  raises.
\<close>

definition idle_camera :: camera where
  "idle_camera = (default_camera ''Shot A'' ''Ext'')
     \<lparr>use_render_passes := True,
      render_passes := [\<lparr>name = ''beauty'', enabled = False, pass_type = ''BEAUTY''\<rparr>]\<rparr>"

definition failing_host :: host where
  "failing_host = plain_host\<lparr>render_ok := (\<lambda>n. False)\<rparr>"

text \<open>The scene with its render count at the largest value the property holds.\<close>

definition worn_scene :: scene where
  "worn_scene = studio_scene
     \<lparr>shotmaster_settings := (shotmaster_settings studio_scene)\<lparr>total_renders := 2147483647\<rparr>\<rparr>"

text \<open>
  Whether a call reaches "Update render statistics": the camera is a camera object, setup
  returns, and a viewport still is rendered by a host whose \<^verbatim>\<open>opengl\<close> operator returns.
\<close>

definition reaches_statistics :: "host \<Rightarrow> camera option \<Rightarrow> bool \<Rightarrow> bool \<Rightarrow> scene \<Rightarrow> bool" where
  "reaches_statistics h camera render_animation is_viewport s =
     (case camera of
        None \<Rightarrow> False
      | Some cam \<Rightarrow>
          obj_type cam = ''CAMERA''
          \<and> (case fst (setup_render_settings h cam is_viewport s) of Inl e \<Rightarrow> False | Inr original \<Rightarrow> True)
          \<and> (is_viewport \<and> \<not> render_animation \<longrightarrow> opengl_ok h))"

text \<open>
  A camera whose group name no group has; a camera with a view layer of its own; a camera
  that asks for Eevee; a host that does not register the Eevee identifier.
\<close>

definition orphan_camera :: camera where
  "orphan_camera = default_camera ''Shot A'' ''Gone''"

definition alt_camera :: camera where
  "alt_camera = (default_camera ''Shot A'' ''Ext'')\<lparr>use_custom_view_layer := True, view_layer := ''Alt''\<rparr>"

definition eevee_camera :: camera where
  "eevee_camera = (default_camera ''Shot A'' ''Ext'')
     \<lparr>use_custom_render_settings := True, render_engine := ''BLENDER_EEVEE''\<rparr>"

definition strict_host :: host where
  "strict_host = plain_host\<lparr>engine_ok := (\<lambda>e. e \<noteq> ''BLENDER_EEVEE'')\<rparr>"

text \<open>
  The base directory of a camera when no group takes part, and the segments that follow the
  group segment.
\<close>

definition ungrouped_base_path :: "host \<Rightarrow> scene \<Rightarrow> camera \<Rightarrow> string" where
  "ungrouped_base_path h s cam =
     (if use_custom_output_path cam \<and> output_path cam \<noteq> [] then abspath h (output_path cam)
      else abspath h (master_output_path (shotmaster_settings s)))"

definition path_tail :: "camera \<Rightarrow> bool \<Rightarrow> string option \<Rightarrow> string list" where
  "path_tail cam render_animation pass_name =
     [sanitize (name cam), if render_animation then ''animation'' else ''stills'']
     @ (case pass_name of None \<Rightarrow> [] | Some p \<Rightarrow> if p \<noteq> [] then [p] else [])"


text \<open>
  The directory a pass is written to (the resolved one, or the fallback where it cannot be
  made, or none where neither can), the file name of a pass, the resulting
  \<^verbatim>\<open>render.filepath\<close>, and the calls a list of passes asks of the render operator when the
  \<open>n\<close> first calls have been made.
\<close>

definition output_dir_for :: "host \<Rightarrow> scene \<Rightarrow> camera \<Rightarrow> bool \<Rightarrow> string option \<Rightarrow> string option" where
  "output_dir_for h s cam a p =
     (let d = get_camera_output_path h s cam a p
      in if makedirs_ok h d then Some d
         else if makedirs_ok h (abspath h ''//renders/'') then Some (abspath h ''//renders/'')
         else None)"

definition pass_filename :: "camera \<Rightarrow> string option \<Rightarrow> string" where
  "pass_filename cam p =
     filename cam @ ''_'' @ name cam @ (case p of None \<Rightarrow> [] | Some q \<Rightarrow> if q \<noteq> [] then ''_'' @ q else [])"

definition pass_filepath :: "host \<Rightarrow> scene \<Rightarrow> camera \<Rightarrow> bool \<Rightarrow> string option \<Rightarrow> string" where
  "pass_filepath h s cam a p =
     (case output_dir_for h s cam a p of None \<Rightarrow> [] | Some d \<Rightarrow> path_join d [pass_filename cam p])"

fun expected_calls :: "host \<Rightarrow> scene \<Rightarrow> camera \<Rightarrow> bool \<Rightarrow> nat \<Rightarrow> string option list \<Rightarrow> engine_call list" where
  "expected_calls h s cam a n [] = []"
| "expected_calls h s cam a n (p # ps) =
     Render (pass_filepath h s cam a p) a (render_ok h n) # expected_calls h s cam a (Suc n) ps"

text \<open>The outcome the specification names for a job, from the outcomes of its passes.\<close>

datatype outcome = Success | Partial | Failure

definition spec_outcome :: "bool list \<Rightarrow> outcome" where
  "spec_outcome oks =
     (if list_all (\<lambda>ok. ok) oks then Success
      else if list_ex (\<lambda>ok. ok) oks then Partial
      else Failure)"

text \<open>A camera with three enabled passes, and a host whose second render call raises.\<close>

definition layered_camera :: camera where
  "layered_camera = (default_camera ''Shot A'' ''Ext'')
     \<lparr>use_render_passes := True,
      render_passes := [\<lparr>name = ''beauty'', enabled = True, pass_type = ''BEAUTY''\<rparr>,
                        \<lparr>name = ''depth'', enabled = True, pass_type = ''DEPTH''\<rparr>,
                        \<lparr>name = ''mist'', enabled = True, pass_type = ''MIST''\<rparr>]\<rparr>"

definition flaky_host :: host where
  "flaky_host = plain_host\<lparr>render_ok := (\<lambda>n. n \<noteq> 1)\<rparr>"

section \<open>Properties\<close>

subsection \<open>The output path of the example\<close>

lemma find_custom_path_empty:
  assumes "\<forall>g\<in>set gs. name g = n \<and> use_custom_output_path g \<longrightarrow> output_path g = []"
  shows "find (\<lambda>g. name g = n \<and> use_custom_output_path g) gs = None
       \<or> (\<exists>g. find (\<lambda>g. name g = n \<and> use_custom_output_path g) gs = Some g \<and> output_path g = [])"
proof (cases "find (\<lambda>g. name g = n \<and> use_custom_output_path g) gs")
  case None
  then show ?thesis by simp
next
  case (Some g)
  then have "g \<in> set gs" "name g = n \<and> use_custom_output_path g"
    by (auto simp: find_Some_iff)
  with assms have "output_path g = []" by blast
  with Some show ?thesis by simp
qed

lemma sanitize_Ext: "sanitize ''Ext'' = ''Ext''"
  by (simp add: sanitize_def strip_def replace_spaces_def py_isalnum_def py_isspace_def)

lemma sanitize_Shot_A: "sanitize ''Shot A'' = ''Shot_A''"
  by (simp add: sanitize_def strip_def replace_spaces_def py_isalnum_def py_isspace_def)

text \<open>
  C8. A camera named "Shot A" in group "Ext", master base path "root/" (which the host's
  \<^verbatim>\<open>abspath\<close> leaves as it is), no output path override in effect at the camera or at a
  group of that name: the still path without a pass name is "root/Ext/Shot_A/stills", the
  animation path for the pass "depth" is "root/Ext/Shot_A/animation/depth".
\<close>

theorem output_path_example:
  assumes "name cam = ''Shot A''" and "group cam = ''Ext''"
    and "master_output_path (shotmaster_settings s) = ''root/''"
    and "abspath h ''root/'' = ''root/''"
    and "\<not> (use_custom_output_path cam \<and> output_path cam \<noteq> [])"
    and "\<forall>g\<in>set (shotmaster_camera_groups s).
           name g = ''Ext'' \<and> use_custom_output_path g \<longrightarrow> output_path g = []"
  shows "get_camera_output_path h s cam False None = ''root/Ext/Shot_A/stills''
       \<and> get_camera_output_path h s cam True (Some ''depth'') = ''root/Ext/Shot_A/animation/depth''"
  using assms(1-5) find_custom_path_empty [OF assms(6)]
  by (auto simp: get_camera_output_path_def Let_def sanitize_Ext sanitize_Shot_A)

theorem output_path_example_witness:
  "get_camera_output_path plain_host studio_scene (default_camera ''Shot A'' ''Ext'') False None
     = ''root/Ext/Shot_A/stills''
   \<and> get_camera_output_path plain_host studio_scene (default_camera ''Shot A'' ''Ext'') True (Some ''depth'')
     = ''root/Ext/Shot_A/animation/depth''"
  using output_path_example [of "default_camera ''Shot A'' ''Ext''" studio_scene plain_host]
  by (simp add: plain_host_def studio_scene_def default_camera_def default_group_def default_settings_def)

lemma dropWhile_none: "\<forall>x\<in>set xs. \<not> P x \<Longrightarrow> dropWhile P xs = xs"
  by (cases xs) auto

lemma strip_no_space: "\<forall>c\<in>set s. \<not> py_isspace c \<Longrightarrow> strip s = s"
  by (simp add: strip_def dropWhile_none)

lemma set_dropWhile_subset: "set (dropWhile P xs) \<subseteq> set xs"
  by (auto dest: set_dropWhileD)

lemma set_strip: "set (strip s) \<subseteq> set s"
proof -
  have "set (strip s) = set (dropWhile py_isspace (rev (dropWhile py_isspace s)))"
    by (simp add: strip_def)
  also have "\<dots> \<subseteq> set (rev (dropWhile py_isspace s))"
    by (rule set_dropWhile_subset)
  also have "\<dots> = set (dropWhile py_isspace s)"
    by simp
  also have "\<dots> \<subseteq> set s"
    by (rule set_dropWhile_subset)
  finally show ?thesis .
qed

lemma isalnum_not_isspace: "py_isalnum c \<Longrightarrow> \<not> py_isspace c"
  by (auto simp: py_isalnum_def py_isspace_def Let_def)

lemma segment_char_not_space: "segment_char c \<Longrightarrow> \<not> py_isspace c \<and> c \<noteq> CHR '' ''"
proof -
  assume "segment_char c"
  then consider "py_isalnum c" | "c = CHR ''_''" | "c = CHR ''-''"
    by (auto simp: segment_char_def)
  then show ?thesis
  proof cases
    case 1
    moreover have "\<not> py_isalnum CHR '' ''" by (simp add: py_isalnum_def)
    ultimately show ?thesis using isalnum_not_isspace by auto
  next
    case 2
    then show ?thesis by (simp add: py_isspace_def)
  next
    case 3
    then show ?thesis by (simp add: py_isspace_def)
  qed
qed

lemma sanitize_chars: "c \<in> set (sanitize n) \<Longrightarrow> segment_char c"
proof -
  assume "c \<in> set (sanitize n)"
  then obtain d where d: "d \<in> set (strip (filter (\<lambda>c. py_isalnum c \<or> c \<in> set '' _-'') n))"
    and c: "c = (if d = CHR '' '' then CHR ''_'' else d)"
    by (auto simp: sanitize_def replace_spaces_def)
  from d set_strip have "d \<in> set (filter (\<lambda>c. py_isalnum c \<or> c \<in> set '' _-'') n)"
    by blast
  then have "py_isalnum d \<or> d = CHR '' '' \<or> d = CHR ''_'' \<or> d = CHR ''-''"
    by auto
  with c show "segment_char c"
    by (auto simp: segment_char_def)
qed

lemma sanitize_fixed: "\<forall>c\<in>set s. segment_char c \<Longrightarrow> sanitize s = s"
proof -
  assume a: "\<forall>c\<in>set s. segment_char c"
  then have f: "filter (\<lambda>c. py_isalnum c \<or> c \<in> set '' _-'') s = s"
    by (auto simp: segment_char_def filter_id_conv)
  from a have "\<forall>c\<in>set s. \<not> py_isspace c" and ns: "\<forall>c\<in>set s. c \<noteq> CHR '' ''"
    using segment_char_not_space by blast+
  then have st: "strip s = s" by (simp add: strip_no_space)
  from ns have "replace_spaces s = s"
    by (simp add: replace_spaces_def map_idI)
  with f st show ?thesis by (simp add: sanitize_def)
qed

lemma path_join_append: "path_join (path_join a xs) ys = path_join a (xs @ ys)"
  by (induction xs arbitrary: a) simp_all

subsection \<open>Determinism of the path, idempotence of the sanitization\<close>

lemma output_path_reads:
  assumes "master_output_path (shotmaster_settings s) = master_output_path (shotmaster_settings s')"
    and "shotmaster_camera_groups s = shotmaster_camera_groups s'"
  shows "get_camera_output_path h s cam render_animation pass_name
       = get_camera_output_path h s' cam render_animation pass_name"
  unfolding get_camera_output_path_def assms by (rule refl)

text \<open>
  C9. The output path is a function of the host, the camera, the arguments, the master
  output path and the groups: two scenes that agree on the last two give the same string,
  whatever else differs. Sanitizing a sanitized name returns it unchanged.
\<close>

theorem path_deterministic_sanitize_idempotent:
  "(master_output_path (shotmaster_settings s) = master_output_path (shotmaster_settings s')
      \<and> shotmaster_camera_groups s = shotmaster_camera_groups s'
    \<longrightarrow> get_camera_output_path h s cam render_animation pass_name
        = get_camera_output_path h s' cam render_animation pass_name)
   \<and> sanitize (sanitize n) = sanitize n"
proof
  show "master_output_path (shotmaster_settings s) = master_output_path (shotmaster_settings s')
      \<and> shotmaster_camera_groups s = shotmaster_camera_groups s'
    \<longrightarrow> get_camera_output_path h s cam render_animation pass_name
        = get_camera_output_path h s' cam render_animation pass_name"
    using output_path_reads by blast
  show "sanitize (sanitize n) = sanitize n"
    by (rule sanitize_fixed) (simp add: sanitize_chars)
qed

theorem path_deterministic_sanitize_idempotent_witness:
  "get_camera_output_path plain_host studio_scene (default_camera ''Shot A'' ''Ext'') False None
     = get_camera_output_path plain_host (studio_scene\<lparr>render_filepath := ''/elsewhere''\<rparr>)
         (default_camera ''Shot A'' ''Ext'') False None
   \<and> sanitize (sanitize '' a b!c '') = sanitize '' a b!c ''"
  using path_deterministic_sanitize_idempotent
    [of studio_scene "studio_scene\<lparr>render_filepath := ''/elsewhere''\<rparr>" plain_host
        "default_camera ''Shot A'' ''Ext''" False None "'' a b!c ''"]
  by (simp add: studio_scene_def)

subsection \<open>What setup resolves\<close>

lemmas example_defs = plain_host_def clamp_def studio_scene_def default_camera_def default_group_def
  default_settings_def eevee_group_def grouped_scene_def wide_camera_def

lemmas setup_defs = setup_render_settings_def snapshot_def apply_master_def apply_group_def
  apply_camera_def apply_render_settings_def apply_view_layer_def set_engine_def set_samples_def
  set_resolution_def set_frame_start_def set_frame_end_def

text \<open>
  C6. The statistics count a camera under its own engine or the master's. For a camera
  without render-settings override in a group that overrides the engine to Eevee, the count
  goes to Cycles (the master's) while setup resolves Eevee: the group tier is missing from
  the statistics.
\<close>

theorem stats_engine_skips_group:
  "stats_engine grouped_scene (default_camera ''Shot A'' ''Ext'') = ''CYCLES''
   \<and> render_engines_stats grouped_scene [default_camera ''Shot A'' ''Ext'']
       = Some [(''CYCLES'', 1), (''BLENDER_EEVEE'', 0), (''BLENDER_WORKBENCH'', 0)]
   \<and> scene_render_engine (snd (setup_render_settings plain_host (default_camera ''Shot A'' ''Ext'') False grouped_scene))
       = ''BLENDER_EEVEE''"
  by (simp add: stats_engine_def render_engines_stats_def example_defs setup_defs)

text \<open>
  C3, as stated, fails: a camera with \<open>use_custom_resolution\<close> set and
  \<open>use_custom_render_settings\<close> unset renders at the master's 1920, not at its own 640.
\<close>

theorem camera_resolution_needs_render_settings_counterexample:
  "use_custom_resolution wide_camera \<and> \<not> use_custom_render_settings wide_camera
   \<and> fst (setup_render_settings plain_host wide_camera False studio_scene) = Inr (snapshot studio_scene)
   \<and> render_resolution_x (snd (setup_render_settings plain_host wide_camera False studio_scene)) = 1920
   \<and> resolution_x wide_camera = 640"
  by (simp add: example_defs setup_defs)

lemma set_samples_frame:
  "scene_render_engine (set_samples h a b s) = scene_render_engine s"
  "render_resolution_x (set_samples h a b s) = render_resolution_x s"
  "render_resolution_y (set_samples h a b s) = render_resolution_y s"
  "render_resolution_percentage (set_samples h a b s) = render_resolution_percentage s"
  "render_filepath (set_samples h a b s) = render_filepath s"
  "render_file_format (set_samples h a b s) = render_file_format s"
  "scene_camera (set_samples h a b s) = scene_camera s"
  "frame_start (set_samples h a b s) = frame_start s"
  "frame_end (set_samples h a b s) = frame_end s"
  "window_view_layer (set_samples h a b s) = window_view_layer s"
  "view_layers (set_samples h a b s) = view_layers s"
  "shotmaster_settings (set_samples h a b s) = shotmaster_settings s"
  "shotmaster_camera_groups (set_samples h a b s) = shotmaster_camera_groups s"
  "engine_log (set_samples h a b s) = engine_log s"
  by (simp_all add: set_samples_def)

lemma set_samples_fields:
  "scene_cycles_samples (set_samples h a b s) =
     (if scene_render_engine s = ''CYCLES'' then cycles_samples_kept h a else scene_cycles_samples s)"
  "scene_eevee_taa_render_samples (set_samples h a b s) =
     (if scene_render_engine s = ''BLENDER_EEVEE'' then eevee_samples_kept h b
      else scene_eevee_taa_render_samples s)"
  by (auto simp: set_samples_def)

lemma frame_range_frame [simp]:
  "frame_range (set_samples h a b s) = frame_range s"
  "frame_range (set_resolution h x y p s) = frame_range s"
  "frame_range (s\<lparr>scene_render_engine := e\<rparr>) = frame_range s"
  "frame_range (s\<lparr>window_view_layer := l\<rparr>) = frame_range s"
  "frame_range (s\<lparr>scene_camera := c\<rparr>) = frame_range s"
  "frame_range (s\<lparr>render_file_format := f\<rparr>) = frame_range s"
  by (simp_all add: frame_range_def set_samples_frame set_resolution_def)

lemma frame_range_assign:
  "frame_range (set_frame_start h v s) = assign_frame_start h v (frame_range s)"
  "frame_range (set_frame_end h v s) = assign_frame_end h v (frame_range s)"
  by (simp_all add: frame_range_def set_frame_start_def set_frame_end_def Let_def)

lemma apply_master_fields:
  assumes "apply_master h s = Inr s1"
  shows "scene_render_engine s1 = master_render_engine (shotmaster_settings s)"
    and "render_resolution_x s1 = resolution_x_kept h (master_resolution_x (shotmaster_settings s))"
    and "render_resolution_y s1 = resolution_y_kept h (master_resolution_y (shotmaster_settings s))"
    and "render_resolution_percentage s1
           = percentage_kept h (master_resolution_percentage (shotmaster_settings s))"
    and "scene_cycles_samples s1 =
           (if master_render_engine (shotmaster_settings s) = ''CYCLES''
            then cycles_samples_kept h (master_cycles_samples (shotmaster_settings s))
            else scene_cycles_samples s)"
    and "scene_eevee_taa_render_samples s1 =
           (if master_render_engine (shotmaster_settings s) = ''BLENDER_EEVEE''
            then eevee_samples_kept h (master_eevee_samples (shotmaster_settings s))
            else scene_eevee_taa_render_samples s)"
    and "window_view_layer s1 = window_view_layer s"
    and "view_layers s1 = view_layers s"
    and "frame_range s1 = frame_range s"
    and "shotmaster_settings s1 = shotmaster_settings s"
    and "shotmaster_camera_groups s1 = shotmaster_camera_groups s"
  using assms
  by (auto simp: apply_master_def set_engine_def Let_def set_samples_frame set_samples_fields
        set_resolution_def frame_range_def split: if_splits)

lemma apply_render_settings_fields:
  assumes "apply_render_settings h x s = Inr s1"
  shows "scene_render_engine s1 = (if use_custom_render_settings x then render_engine x else scene_render_engine s)"
    and "render_resolution_x s1 =
           (if use_custom_render_settings x \<and> use_custom_resolution x
            then resolution_x_kept h (resolution_x x) else render_resolution_x s)"
    and "render_resolution_y s1 =
           (if use_custom_render_settings x \<and> use_custom_resolution x
            then resolution_y_kept h (resolution_y x) else render_resolution_y s)"
    and "render_resolution_percentage s1 =
           (if use_custom_render_settings x \<and> use_custom_resolution x
            then percentage_kept h (resolution_percentage x) else render_resolution_percentage s)"
    and "scene_cycles_samples s1 =
           (if use_custom_render_settings x \<and> render_engine x = ''CYCLES''
            then cycles_samples_kept h (cycles_samples x) else scene_cycles_samples s)"
    and "scene_eevee_taa_render_samples s1 =
           (if use_custom_render_settings x \<and> render_engine x = ''BLENDER_EEVEE''
            then eevee_samples_kept h (eevee_samples x) else scene_eevee_taa_render_samples s)"
    and "window_view_layer s1 = window_view_layer s"
    and "view_layers s1 = view_layers s"
    and "frame_range s1 = frame_range s"
    and "shotmaster_settings s1 = shotmaster_settings s"
    and "shotmaster_camera_groups s1 = shotmaster_camera_groups s"
  using assms
  by (auto simp: apply_render_settings_def set_engine_def set_samples_frame set_samples_fields
        set_resolution_def frame_range_def split: if_splits)

lemma apply_view_layer_fields:
  "scene_render_engine (apply_view_layer x s) = scene_render_engine s"
  "render_resolution_x (apply_view_layer x s) = render_resolution_x s"
  "render_resolution_y (apply_view_layer x s) = render_resolution_y s"
  "render_resolution_percentage (apply_view_layer x s) = render_resolution_percentage s"
  "scene_cycles_samples (apply_view_layer x s) = scene_cycles_samples s"
  "scene_eevee_taa_render_samples (apply_view_layer x s) = scene_eevee_taa_render_samples s"
  "view_layers (apply_view_layer x s) = view_layers s"
  "frame_range (apply_view_layer x s) = frame_range s"
  "shotmaster_settings (apply_view_layer x s) = shotmaster_settings s"
  "shotmaster_camera_groups (apply_view_layer x s) = shotmaster_camera_groups s"
  "window_view_layer (apply_view_layer x s) =
     (if use_custom_view_layer x \<and> view_layer x \<in> set (view_layers s) then view_layer x
      else window_view_layer s)"
  by (simp_all add: apply_view_layer_def)

lemma apply_group_cases:
  "apply_group h cam s =
     (case camera_group_of s cam of
        None \<Rightarrow> Inr s
      | Some g \<Rightarrow>
          (case apply_render_settings h g s of
             Inl e \<Rightarrow> Inl e
           | Inr s1 \<Rightarrow> Inr (apply_view_layer g s1)))"
  by (simp add: apply_group_def camera_group_of_def)

lemma apply_group_fields:
  assumes "apply_group h cam s = Inr s1"
  shows "scene_render_engine s1 =
           (case camera_group_of s cam of
              Some g \<Rightarrow> if use_custom_render_settings g then render_engine g else scene_render_engine s
            | None \<Rightarrow> scene_render_engine s)
       \<and> render_resolution_x s1 =
           (case camera_group_of s cam of
              Some g \<Rightarrow> if use_custom_render_settings g \<and> use_custom_resolution g
                        then resolution_x_kept h (resolution_x g) else render_resolution_x s
            | None \<Rightarrow> render_resolution_x s)
       \<and> render_resolution_y s1 =
           (case camera_group_of s cam of
              Some g \<Rightarrow> if use_custom_render_settings g \<and> use_custom_resolution g
                        then resolution_y_kept h (resolution_y g) else render_resolution_y s
            | None \<Rightarrow> render_resolution_y s)
       \<and> render_resolution_percentage s1 =
           (case camera_group_of s cam of
              Some g \<Rightarrow> if use_custom_render_settings g \<and> use_custom_resolution g
                        then percentage_kept h (resolution_percentage g)
                        else render_resolution_percentage s
            | None \<Rightarrow> render_resolution_percentage s)
       \<and> scene_cycles_samples s1 =
           (case camera_group_of s cam of
              Some g \<Rightarrow> if use_custom_render_settings g \<and> render_engine g = ''CYCLES''
                        then cycles_samples_kept h (cycles_samples g) else scene_cycles_samples s
            | None \<Rightarrow> scene_cycles_samples s)
       \<and> scene_eevee_taa_render_samples s1 =
           (case camera_group_of s cam of
              Some g \<Rightarrow> if use_custom_render_settings g \<and> render_engine g = ''BLENDER_EEVEE''
                        then eevee_samples_kept h (eevee_samples g)
                        else scene_eevee_taa_render_samples s
            | None \<Rightarrow> scene_eevee_taa_render_samples s)
       \<and> window_view_layer s1 =
           (case camera_group_of s cam of
              Some g \<Rightarrow> if use_custom_view_layer g \<and> view_layer g \<in> set (view_layers s) then view_layer g
                        else window_view_layer s
            | None \<Rightarrow> window_view_layer s)
       \<and> view_layers s1 = view_layers s
       \<and> frame_range s1 = frame_range s
       \<and> shotmaster_settings s1 = shotmaster_settings s
       \<and> shotmaster_camera_groups s1 = shotmaster_camera_groups s"
proof (cases "camera_group_of s cam")
  case None
  with assms have "s1 = s" by (simp add: apply_group_cases)
  with None show ?thesis by simp
next
  case (Some g)
  with assms obtain s0 where s0: "apply_render_settings h g s = Inr s0"
    and s1: "s1 = apply_view_layer g s0"
    by (auto simp: apply_group_cases split: sum.splits)
  show ?thesis
    unfolding s1 Some using apply_render_settings_fields [OF s0]
    by (simp add: apply_view_layer_fields)
qed

lemma apply_camera_result:
  assumes "apply_camera h cam is_viewport s = Inr s1"
  obtains s0 where "apply_render_settings h cam s = Inr s0"
    and "s1 = (let s2 = apply_view_layer cam s0;
                   s3 = (if use_custom_frames cam
                         then set_frame_end h (end_frame cam) (set_frame_start h (start_frame cam) s2)
                         else set_frame_end h (master_end_frame (shotmaster_settings s2))
                                (set_frame_start h (master_start_frame (shotmaster_settings s2)) s2));
                   s4 = s3\<lparr>scene_camera := Some cam\<rparr>
               in (if is_viewport then s4 else s4\<lparr>render_file_format := file_format cam\<rparr>))"
  using assms by (auto simp: apply_camera_def Let_def split: sum.splits)

lemma set_frame_frame:
  "scene_render_engine (set_frame_start h v s) = scene_render_engine s"
  "render_resolution_x (set_frame_start h v s) = render_resolution_x s"
  "render_resolution_y (set_frame_start h v s) = render_resolution_y s"
  "render_resolution_percentage (set_frame_start h v s) = render_resolution_percentage s"
  "scene_cycles_samples (set_frame_start h v s) = scene_cycles_samples s"
  "scene_eevee_taa_render_samples (set_frame_start h v s) = scene_eevee_taa_render_samples s"
  "window_view_layer (set_frame_start h v s) = window_view_layer s"
  "render_filepath (set_frame_start h v s) = render_filepath s"
  "engine_log (set_frame_start h v s) = engine_log s"
  "shotmaster_settings (set_frame_start h v s) = shotmaster_settings s"
  "shotmaster_camera_groups (set_frame_start h v s) = shotmaster_camera_groups s"
  "scene_render_engine (set_frame_end h v s) = scene_render_engine s"
  "render_resolution_x (set_frame_end h v s) = render_resolution_x s"
  "render_resolution_y (set_frame_end h v s) = render_resolution_y s"
  "render_resolution_percentage (set_frame_end h v s) = render_resolution_percentage s"
  "scene_cycles_samples (set_frame_end h v s) = scene_cycles_samples s"
  "scene_eevee_taa_render_samples (set_frame_end h v s) = scene_eevee_taa_render_samples s"
  "window_view_layer (set_frame_end h v s) = window_view_layer s"
  "render_filepath (set_frame_end h v s) = render_filepath s"
  "engine_log (set_frame_end h v s) = engine_log s"
  "shotmaster_settings (set_frame_end h v s) = shotmaster_settings s"
  "shotmaster_camera_groups (set_frame_end h v s) = shotmaster_camera_groups s"
  by (simp_all add: set_frame_start_def set_frame_end_def Let_def)

lemma apply_camera_fields:
  assumes "apply_camera h cam is_viewport s = Inr s1"
  shows "scene_render_engine s1 =
           (if use_custom_render_settings cam then render_engine cam else scene_render_engine s)
       \<and> render_resolution_x s1 =
           (if use_custom_render_settings cam \<and> use_custom_resolution cam
            then resolution_x_kept h (resolution_x cam) else render_resolution_x s)
       \<and> render_resolution_y s1 =
           (if use_custom_render_settings cam \<and> use_custom_resolution cam
            then resolution_y_kept h (resolution_y cam) else render_resolution_y s)
       \<and> render_resolution_percentage s1 =
           (if use_custom_render_settings cam \<and> use_custom_resolution cam
            then percentage_kept h (resolution_percentage cam) else render_resolution_percentage s)
       \<and> scene_cycles_samples s1 =
           (if use_custom_render_settings cam \<and> render_engine cam = ''CYCLES''
            then cycles_samples_kept h (cycles_samples cam) else scene_cycles_samples s)
       \<and> scene_eevee_taa_render_samples s1 =
           (if use_custom_render_settings cam \<and> render_engine cam = ''BLENDER_EEVEE''
            then eevee_samples_kept h (eevee_samples cam) else scene_eevee_taa_render_samples s)
       \<and> window_view_layer s1 =
           (if use_custom_view_layer cam \<and> view_layer cam \<in> set (view_layers s) then view_layer cam
            else window_view_layer s)
       \<and> frame_range s1 =
           (if use_custom_frames cam
            then assign_frame_end h (end_frame cam) (assign_frame_start h (start_frame cam) (frame_range s))
            else assign_frame_end h (master_end_frame (shotmaster_settings s))
                   (assign_frame_start h (master_start_frame (shotmaster_settings s)) (frame_range s)))"
proof -
  from assms obtain s0 where s0: "apply_render_settings h cam s = Inr s0"
    and s1: "s1 = (let s2 = apply_view_layer cam s0;
                   s3 = (if use_custom_frames cam
                         then set_frame_end h (end_frame cam) (set_frame_start h (start_frame cam) s2)
                         else set_frame_end h (master_end_frame (shotmaster_settings s2))
                                (set_frame_start h (master_start_frame (shotmaster_settings s2)) s2));
                   s4 = s3\<lparr>scene_camera := Some cam\<rparr>
               in (if is_viewport then s4 else s4\<lparr>render_file_format := file_format cam\<rparr>))"
    by (rule apply_camera_result)
  show ?thesis
    unfolding s1 using apply_render_settings_fields [OF s0]
    by (simp add: Let_def apply_view_layer_fields set_frame_frame frame_range_assign)
qed

lemma camera_group_of_reads:
  "shotmaster_camera_groups s1 = shotmaster_camera_groups s \<Longrightarrow> camera_group_of s1 cam = camera_group_of s cam"
  by (simp add: camera_group_of_def)

lemma setup_stages:
  assumes "setup_render_settings h cam is_viewport s = (Inr original, s')"
  obtains s1 s2 where "apply_master h s = Inr s1" and "apply_group h cam s1 = Inr s2"
    and "apply_camera h cam is_viewport s2 = Inr s'" and "original = snapshot s"
  using assms
  by (auto simp: setup_render_settings_def Let_def split: sum.splits)

text \<open>
  The path is the base directory of the first tier that overrides it with a non-empty path
  (camera, then the group \<open>path_group_of\<close>, then master), joined with the group segment and
  the segments of the camera.
\<close>

lemma output_path_tiers:
  "get_camera_output_path h s cam a p =
     path_join
       (if use_custom_output_path cam \<and> output_path cam \<noteq> [] then abspath h (output_path cam)
        else case path_group_of s cam of
               Some g \<Rightarrow> if output_path g \<noteq> [] then abspath h (output_path g)
                         else abspath h (master_output_path (shotmaster_settings s))
             | None \<Rightarrow> abspath h (master_output_path (shotmaster_settings s)))
       ((if group cam \<noteq> [] then sanitize (group cam) else ''ungrouped'') # path_tail cam a p)"
  by (cases p; cases "path_group_of s cam")
     (auto simp: get_camera_output_path_def path_group_of_def path_tail_def Let_def
        path_join_append simp del: path_join.simps split: if_splits)

text \<open>
  C3, amended. Where setup returns, every field-group is resolved by precedence camera, then
  group, then master, by toggles of its own: engine and the sample count of the resolved
  engine by \<open>use_custom_render_settings\<close>; the view layer by \<open>use_custom_view_layer\<close> (and
  only for a layer the scene has, else the layer in place stays); the frame range by
  \<open>use_custom_frames\<close> (camera, then master); the base directory of the output path by
  \<open>use_custom_output_path\<close> with a non-empty path. The resolution is the exception: the
  resolution of a camera or group takes effect only where the same record has both
  \<open>use_custom_resolution\<close> and \<open>use_custom_render_settings\<close> set, so a camera with only
  \<open>use_custom_resolution\<close> set gets the group's or master's resolution, and the group's or
  master's engine. The scene holds what the host keeps of each value assigned.
\<close>

theorem resolution_gated_by_render_settings:
  assumes "setup_render_settings h cam is_viewport s = (Inr original, s')"
  shows "scene_render_engine s' =
           (if use_custom_render_settings cam then render_engine cam
            else case camera_group_of s cam of
                   Some g \<Rightarrow> if use_custom_render_settings g then render_engine g
                             else master_render_engine (shotmaster_settings s)
                 | None \<Rightarrow> master_render_engine (shotmaster_settings s))
       \<and> (scene_render_engine s' = ''CYCLES'' \<longrightarrow>
          scene_cycles_samples s' = cycles_samples_kept h
           (if use_custom_render_settings cam then cycles_samples cam
            else case camera_group_of s cam of
                   Some g \<Rightarrow> if use_custom_render_settings g then cycles_samples g
                             else master_cycles_samples (shotmaster_settings s)
                 | None \<Rightarrow> master_cycles_samples (shotmaster_settings s)))
       \<and> (scene_render_engine s' = ''BLENDER_EEVEE'' \<longrightarrow>
          scene_eevee_taa_render_samples s' = eevee_samples_kept h
           (if use_custom_render_settings cam then eevee_samples cam
            else case camera_group_of s cam of
                   Some g \<Rightarrow> if use_custom_render_settings g then eevee_samples g
                             else master_eevee_samples (shotmaster_settings s)
                 | None \<Rightarrow> master_eevee_samples (shotmaster_settings s)))
       \<and> render_resolution_x s' = resolution_x_kept h
           (if use_custom_render_settings cam \<and> use_custom_resolution cam then resolution_x cam
            else case camera_group_of s cam of
                   Some g \<Rightarrow> if use_custom_render_settings g \<and> use_custom_resolution g then resolution_x g
                             else master_resolution_x (shotmaster_settings s)
                 | None \<Rightarrow> master_resolution_x (shotmaster_settings s))
       \<and> render_resolution_y s' = resolution_y_kept h
           (if use_custom_render_settings cam \<and> use_custom_resolution cam then resolution_y cam
            else case camera_group_of s cam of
                   Some g \<Rightarrow> if use_custom_render_settings g \<and> use_custom_resolution g then resolution_y g
                             else master_resolution_y (shotmaster_settings s)
                 | None \<Rightarrow> master_resolution_y (shotmaster_settings s))
       \<and> render_resolution_percentage s' = percentage_kept h
           (if use_custom_render_settings cam \<and> use_custom_resolution cam then resolution_percentage cam
            else case camera_group_of s cam of
                   Some g \<Rightarrow> if use_custom_render_settings g \<and> use_custom_resolution g
                             then resolution_percentage g
                             else master_resolution_percentage (shotmaster_settings s)
                 | None \<Rightarrow> master_resolution_percentage (shotmaster_settings s))
       \<and> window_view_layer s' =
           (if use_custom_view_layer cam \<and> view_layer cam \<in> set (view_layers s) then view_layer cam
            else case camera_group_of s cam of
                   Some g \<Rightarrow> if use_custom_view_layer g \<and> view_layer g \<in> set (view_layers s)
                             then view_layer g else window_view_layer s
                 | None \<Rightarrow> window_view_layer s)
       \<and> frame_range s' =
           (if use_custom_frames cam
            then assign_frame_end h (end_frame cam) (assign_frame_start h (start_frame cam) (frame_range s))
            else assign_frame_end h (master_end_frame (shotmaster_settings s))
                   (assign_frame_start h (master_start_frame (shotmaster_settings s)) (frame_range s)))
       \<and> get_camera_output_path h s cam a p =
           path_join
             (if use_custom_output_path cam \<and> output_path cam \<noteq> [] then abspath h (output_path cam)
              else case path_group_of s cam of
                     Some g \<Rightarrow> if output_path g \<noteq> [] then abspath h (output_path g)
                               else abspath h (master_output_path (shotmaster_settings s))
                   | None \<Rightarrow> abspath h (master_output_path (shotmaster_settings s)))
             ((if group cam \<noteq> [] then sanitize (group cam) else ''ungrouped'') # path_tail cam a p)"
proof -
  from assms obtain s1 s2 where m: "apply_master h s = Inr s1"
    and g: "apply_group h cam s1 = Inr s2"
    and c: "apply_camera h cam is_viewport s2 = Inr s'"
    by (rule setup_stages)
  note M = apply_master_fields [OF m]
  have G: "camera_group_of s1 cam = camera_group_of s cam"
    by (rule camera_group_of_reads) (rule M)
  note Gf = apply_group_fields [OF g, unfolded G]
  note Cf = apply_camera_fields [OF c]
  have engine: "scene_render_engine s' =
           (if use_custom_render_settings cam then render_engine cam
            else case camera_group_of s cam of
                   Some g \<Rightarrow> if use_custom_render_settings g then render_engine g
                             else master_render_engine (shotmaster_settings s)
                 | None \<Rightarrow> master_render_engine (shotmaster_settings s))"
    using Cf Gf by (simp add: M split: option.splits)
  have cyc: "scene_render_engine s' = ''CYCLES'' \<longrightarrow>
          scene_cycles_samples s' = cycles_samples_kept h
           (if use_custom_render_settings cam then cycles_samples cam
            else case camera_group_of s cam of
                   Some g \<Rightarrow> if use_custom_render_settings g then cycles_samples g
                             else master_cycles_samples (shotmaster_settings s)
                 | None \<Rightarrow> master_cycles_samples (shotmaster_settings s))"
    using Cf Gf by (auto simp: M split: option.splits)
  have eev: "scene_render_engine s' = ''BLENDER_EEVEE'' \<longrightarrow>
          scene_eevee_taa_render_samples s' = eevee_samples_kept h
           (if use_custom_render_settings cam then eevee_samples cam
            else case camera_group_of s cam of
                   Some g \<Rightarrow> if use_custom_render_settings g then eevee_samples g
                             else master_eevee_samples (shotmaster_settings s)
                 | None \<Rightarrow> master_eevee_samples (shotmaster_settings s))"
    using Cf Gf by (auto simp: M split: option.splits)
  have rest: "render_resolution_x s' = resolution_x_kept h
           (if use_custom_render_settings cam \<and> use_custom_resolution cam then resolution_x cam
            else case camera_group_of s cam of
                   Some g \<Rightarrow> if use_custom_render_settings g \<and> use_custom_resolution g then resolution_x g
                             else master_resolution_x (shotmaster_settings s)
                 | None \<Rightarrow> master_resolution_x (shotmaster_settings s))
       \<and> render_resolution_y s' = resolution_y_kept h
           (if use_custom_render_settings cam \<and> use_custom_resolution cam then resolution_y cam
            else case camera_group_of s cam of
                   Some g \<Rightarrow> if use_custom_render_settings g \<and> use_custom_resolution g then resolution_y g
                             else master_resolution_y (shotmaster_settings s)
                 | None \<Rightarrow> master_resolution_y (shotmaster_settings s))
       \<and> render_resolution_percentage s' = percentage_kept h
           (if use_custom_render_settings cam \<and> use_custom_resolution cam then resolution_percentage cam
            else case camera_group_of s cam of
                   Some g \<Rightarrow> if use_custom_render_settings g \<and> use_custom_resolution g
                             then resolution_percentage g
                             else master_resolution_percentage (shotmaster_settings s)
                 | None \<Rightarrow> master_resolution_percentage (shotmaster_settings s))
       \<and> window_view_layer s' =
           (if use_custom_view_layer cam \<and> view_layer cam \<in> set (view_layers s) then view_layer cam
            else case camera_group_of s cam of
                   Some g \<Rightarrow> if use_custom_view_layer g \<and> view_layer g \<in> set (view_layers s)
                             then view_layer g else window_view_layer s
                 | None \<Rightarrow> window_view_layer s)
       \<and> frame_range s' =
           (if use_custom_frames cam
            then assign_frame_end h (end_frame cam) (assign_frame_start h (start_frame cam) (frame_range s))
            else assign_frame_end h (master_end_frame (shotmaster_settings s))
                   (assign_frame_start h (master_start_frame (shotmaster_settings s)) (frame_range s)))"
    using Cf Gf by (simp add: M split: option.splits)
  from engine cyc eev rest output_path_tiers [of h s cam a p] show ?thesis
    by (intro conjI) blast+
qed

theorem resolution_gated_by_render_settings_witness:
  "scene_render_engine (snd (setup_render_settings plain_host wide_camera False studio_scene)) = ''CYCLES''
   \<and> render_resolution_x (snd (setup_render_settings plain_host wide_camera False studio_scene)) = 1920
   \<and> scene_cycles_samples (snd (setup_render_settings plain_host wide_camera False studio_scene)) = 128
   \<and> frame_range (snd (setup_render_settings plain_host wide_camera False studio_scene)) = (1, 250)
   \<and> get_camera_output_path plain_host studio_scene wide_camera False None
       = path_join ''root/'' [''ungrouped'', sanitize ''Shot A'', ''stills'']"
proof -
  have r: "setup_render_settings plain_host wide_camera False studio_scene
         = (Inr (snapshot studio_scene), snd (setup_render_settings plain_host wide_camera False studio_scene))"
    by (simp add: example_defs setup_defs)
  have "camera_group_of studio_scene wide_camera = None" "path_group_of studio_scene wide_camera = None"
    by (simp_all add: camera_group_of_def path_group_of_def example_defs)
  with resolution_gated_by_render_settings [OF r, where a = False and p = None] show ?thesis
    by (simp add: example_defs frame_range_def path_tail_def)
qed

subsection \<open>What each step leaves alone\<close>

lemma set_engine_frame:
  assumes "set_engine h e s = Inr s1"
  shows "engine_log s1 = engine_log s \<and> shotmaster_settings s1 = shotmaster_settings s
       \<and> shotmaster_camera_groups s1 = shotmaster_camera_groups s \<and> view_layers s1 = view_layers s
       \<and> render_filepath s1 = render_filepath s"
  using assms by (auto simp: set_engine_def split: if_splits)

lemma apply_master_frame:
  assumes "apply_master h s = Inr s1"
  shows "engine_log s1 = engine_log s \<and> render_filepath s1 = render_filepath s"
  using assms
  by (auto simp: apply_master_def set_engine_def Let_def set_samples_frame set_resolution_def
        split: if_splits)

lemma apply_render_settings_frame:
  assumes "apply_render_settings h x s = Inr s1"
  shows "engine_log s1 = engine_log s \<and> render_filepath s1 = render_filepath s"
  using assms
  by (auto simp: apply_render_settings_def set_engine_def set_samples_frame set_resolution_def
        split: if_splits)

lemma apply_view_layer_frame:
  "engine_log (apply_view_layer x s) = engine_log s"
  "render_filepath (apply_view_layer x s) = render_filepath s"
  by (simp_all add: apply_view_layer_def)

lemma apply_group_frame:
  assumes "apply_group h cam s = Inr s1"
  shows "engine_log s1 = engine_log s \<and> render_filepath s1 = render_filepath s"
proof (cases "camera_group_of s cam")
  case None
  with assms show ?thesis by (simp add: apply_group_cases)
next
  case (Some g)
  with assms obtain s0 where s0: "apply_render_settings h g s = Inr s0"
    and s1: "s1 = apply_view_layer g s0"
    by (auto simp: apply_group_cases split: sum.splits)
  show ?thesis
    unfolding s1 using apply_render_settings_frame [OF s0]
    by (simp add: apply_view_layer_frame)
qed

lemma apply_camera_frame:
  assumes "apply_camera h cam is_viewport s = Inr s1"
  shows "engine_log s1 = engine_log s \<and> render_filepath s1 = render_filepath s
       \<and> shotmaster_settings s1 = shotmaster_settings s
       \<and> shotmaster_camera_groups s1 = shotmaster_camera_groups s"
proof -
  from assms obtain s0 where s0: "apply_render_settings h cam s = Inr s0"
    and s1: "s1 = (let s2 = apply_view_layer cam s0;
                   s3 = (if use_custom_frames cam
                         then set_frame_end h (end_frame cam) (set_frame_start h (start_frame cam) s2)
                         else set_frame_end h (master_end_frame (shotmaster_settings s2))
                                (set_frame_start h (master_start_frame (shotmaster_settings s2)) s2));
                   s4 = s3\<lparr>scene_camera := Some cam\<rparr>
               in (if is_viewport then s4 else s4\<lparr>render_file_format := file_format cam\<rparr>))"
    by (rule apply_camera_result)
  show ?thesis
    unfolding s1 using apply_render_settings_frame [OF s0] apply_render_settings_fields [OF s0]
    by (simp add: Let_def apply_view_layer_frame apply_view_layer_fields set_frame_frame)
qed

text \<open>Setup, returning or raising, leaves the trace, the master settings and the groups alone.\<close>

lemma setup_frame:
  assumes "setup_render_settings h cam is_viewport s = (r, s')"
  shows "engine_log s' = engine_log s \<and> shotmaster_settings s' = shotmaster_settings s
       \<and> shotmaster_camera_groups s' = shotmaster_camera_groups s"
proof (cases "apply_master h s")
  case (Inl e)
  with assms show ?thesis by (simp add: setup_render_settings_def)
next
  case m: (Inr s1)
  note M = apply_master_frame [OF m] apply_master_fields [OF m]
  show ?thesis
  proof (cases "apply_group h cam s1")
    case (Inl e)
    with assms m M show ?thesis by (simp add: setup_render_settings_def)
  next
    case g: (Inr s2)
    note G = apply_group_frame [OF g] apply_group_fields [OF g]
    show ?thesis
    proof (cases "apply_camera h cam is_viewport s2")
      case (Inl e)
      with assms m g M G show ?thesis by (simp add: setup_render_settings_def)
    next
      case c: (Inr s3)
      with assms m g M G apply_camera_frame [OF c] show ?thesis
        by (simp add: setup_render_settings_def)
    qed
  qed
qed

lemma restore_frame:
  "engine_log (restore_render_settings original s) = engine_log s"
  "shotmaster_settings (restore_render_settings original s) = shotmaster_settings s"
  "shotmaster_camera_groups (restore_render_settings original s) = shotmaster_camera_groups s"
  by (simp_all add: restore_render_settings_def)

lemma update_statistics_cases:
  "update_statistics h s =
     (if total_renders (shotmaster_settings s) < 2147483647
      then Inr (s\<lparr>shotmaster_settings :=
                    (shotmaster_settings s)
                      \<lparr>total_renders := total_renders (shotmaster_settings s) + 1,
                       last_render_time := duration_kept h (float_sub h (time_end h) (time_start h)),
                       total_render_time :=
                         duration_kept h (float_add h (total_render_time (shotmaster_settings s))
                                            (float_sub h (time_end h) (time_start h)))\<rparr>\<rparr>)
      else Inl OverflowError)"
  by (simp add: update_statistics_def Let_def)

lemma update_statistics_frame:
  assumes "update_statistics h s = Inr s'"
  shows "engine_log s' = engine_log s" and "shotmaster_camera_groups s' = shotmaster_camera_groups s"
  using assms by (auto simp: update_statistics_cases split: if_splits)

lemma render_pass_step_settings:
  "shotmaster_settings (snd (render_pass_step h cam a p st)) = shotmaster_settings (snd st)
   \<and> shotmaster_camera_groups (snd (render_pass_step h cam a p st)) = shotmaster_camera_groups (snd st)"
  by (simp add: render_pass_step_def Let_def split: sum.splits)

lemma render_each_pass_settings:
  "shotmaster_settings (snd (render_each_pass h cam a ps st)) = shotmaster_settings (snd st)
   \<and> shotmaster_camera_groups (snd (render_each_pass h cam a ps st)) = shotmaster_camera_groups (snd st)"
  by (induction ps arbitrary: st) (simp_all add: render_pass_step_settings)

lemma render_body_settings:
  "shotmaster_settings (snd (render_body h cam a v s)) = shotmaster_settings s"
  using render_each_pass_settings [of h cam a "passes_to_render cam" "(False, s)"]
  by (simp add: render_body_def Let_def)

lemma render_body_raises:
  "(\<exists>e. fst (render_body h cam a v s) = Inl e) = (v \<and> \<not> a \<and> \<not> opengl_ok h)"
  by (auto simp: render_body_def Let_def)


subsection \<open>Statistics counters and jobs without a pass\<close>

lemma render_from_camera_cases:
  assumes "obj_type cam = ''CAMERA''"
  shows "render_from_camera h (Some cam) a v s =
     (case setup_render_settings h cam v s of
        (Inl e, s1) \<Rightarrow> (False, s1)
      | (Inr original, s1) \<Rightarrow>
          (case render_body h cam a v s1 of
             (Inl e, s2) \<Rightarrow> (False, restore_render_settings original s2)
           | (Inr success, s2) \<Rightarrow>
               (case update_statistics h s2 of
                  Inl e \<Rightarrow> (False, restore_render_settings original s2)
                | Inr s3 \<Rightarrow> (success, restore_render_settings original s3))))"
  using assms by (auto simp: render_from_camera_def finally_restore_def split: prod.splits sum.splits)

text \<open>
  C5, amended. The three counters are written exactly when the call reaches the statistics
  update (the camera is a camera object, setup returned, and no exception left the render
  step) with a render count below 2147483647. Then the count grows by one, whatever the
  number of passes and whatever the flag returned (also when every pass failed or there was
  none); the host keeps the duration, the difference of the two clock readings, as the last
  one, and the sum of the former total and the duration as the total. Otherwise the counters
  keep their values; where the update is reached with the count at 2147483647, the increment
  raises and the call returns \<open>False\<close>.
\<close>

theorem statistics_updated_whenever_reached:
  "shotmaster_settings (snd (render_from_camera h camera a v s)) =
     (if reaches_statistics h camera a v s \<and> total_renders (shotmaster_settings s) < 2147483647
      then (shotmaster_settings s)
             \<lparr>total_renders := total_renders (shotmaster_settings s) + 1,
              last_render_time := duration_kept h (float_sub h (time_end h) (time_start h)),
              total_render_time :=
                duration_kept h (float_add h (total_render_time (shotmaster_settings s))
                                   (float_sub h (time_end h) (time_start h)))\<rparr>
      else shotmaster_settings s)
   \<and> (reaches_statistics h camera a v s \<and> \<not> total_renders (shotmaster_settings s) < 2147483647
        \<longrightarrow> \<not> fst (render_from_camera h camera a v s))"
proof (cases camera)
  case None
  then show ?thesis by (simp add: render_from_camera_def reaches_statistics_def)
next
  case (Some cam)
  show ?thesis
  proof (cases "obj_type cam = ''CAMERA''")
    case False
    with Some show ?thesis by (simp add: render_from_camera_def reaches_statistics_def)
  next
    case True
    obtain r s1 where su: "setup_render_settings h cam v s = (r, s1)"
      by (cases "setup_render_settings h cam v s")
    note F = setup_frame [OF su]
    show ?thesis
    proof (cases r)
      case (Inl e)
      with Some True su F show ?thesis
        by (simp add: render_from_camera_cases reaches_statistics_def)
    next
      case (Inr original)
      obtain b s2 where bo: "render_body h cam a v s1 = (b, s2)"
        by (cases "render_body h cam a v s1")
      have S2: "shotmaster_settings s2 = shotmaster_settings s"
        using render_body_settings [of h cam a v s1] bo F by simp
      show ?thesis
      proof (cases b)
        case (Inl e)
        then have "v \<and> \<not> a \<and> \<not> opengl_ok h"
          using render_body_raises [of h cam a v s1] bo by auto
        with Inl Inr Some True su bo S2 show ?thesis
          by (simp add: render_from_camera_cases reaches_statistics_def restore_frame)
      next
        case ok: (Inr success)
        then have re: "reaches_statistics h camera a v s"
          using render_body_raises [of h cam a v s1] bo Some True su Inr
          by (auto simp: reaches_statistics_def)
        show ?thesis
        proof (cases "total_renders (shotmaster_settings s) < 2147483647")
          case True
          with re ok Inr Some \<open>obj_type cam = ''CAMERA''\<close> su bo S2 show ?thesis
            by (simp add: render_from_camera_cases restore_frame update_statistics_cases)
        next
          case False
          with re ok Inr Some \<open>obj_type cam = ''CAMERA''\<close> su bo S2 show ?thesis
            by (simp add: render_from_camera_cases restore_frame update_statistics_cases)
        qed
      qed
    qed
  qed
qed

theorem statistics_updated_whenever_reached_witness:
  "reaches_statistics failing_host (Some (default_camera ''Shot A'' ''Ext'')) False False studio_scene
   \<and> shotmaster_settings (snd (render_from_camera failing_host
        (Some (default_camera ''Shot A'' ''Ext'')) False False studio_scene))
      = (shotmaster_settings studio_scene)
          \<lparr>total_renders := 1, last_render_time := 2, total_render_time := 2\<rparr>
   \<and> \<not> reaches_statistics plain_host None False False studio_scene
   \<and> total_renders (shotmaster_settings (snd (render_from_camera plain_host None False False studio_scene))) = 0
   \<and> reaches_statistics plain_host (Some (default_camera ''Shot A'' ''Ext'')) False False worn_scene
   \<and> \<not> fst (render_from_camera plain_host (Some (default_camera ''Shot A'' ''Ext'')) False False worn_scene)
   \<and> shotmaster_settings (snd (render_from_camera plain_host
        (Some (default_camera ''Shot A'' ''Ext'')) False False worn_scene))
      = shotmaster_settings worn_scene"
proof -
  have a: "reaches_statistics failing_host (Some (default_camera ''Shot A'' ''Ext'')) False False studio_scene"
    by (simp add: reaches_statistics_def failing_host_def example_defs setup_defs)
  have b: "\<not> reaches_statistics plain_host None False False studio_scene"
    by (simp add: reaches_statistics_def)
  have c: "reaches_statistics plain_host (Some (default_camera ''Shot A'' ''Ext'')) False False worn_scene"
    by (simp add: reaches_statistics_def worn_scene_def example_defs setup_defs)
  have n: "total_renders (shotmaster_settings studio_scene) = 0"
    "total_render_time (shotmaster_settings studio_scene) = 0"
    "total_renders (shotmaster_settings worn_scene) = 2147483647"
    by (simp_all add: worn_scene_def studio_scene_def default_settings_def)
  have d: "duration_kept failing_host (float_sub failing_host (time_end failing_host) (time_start failing_host)) = 2"
    "duration_kept failing_host (float_add failing_host 0
       (float_sub failing_host (time_end failing_host) (time_start failing_host))) = 2"
    by (simp_all add: failing_host_def plain_host_def)
  show ?thesis
    using a b c
      statistics_updated_whenever_reached [of failing_host "Some (default_camera ''Shot A'' ''Ext'')" False False studio_scene]
      statistics_updated_whenever_reached [of plain_host None False False studio_scene]
      statistics_updated_whenever_reached [of plain_host "Some (default_camera ''Shot A'' ''Ext'')" False False worn_scene]
    by (simp add: n d)
qed

text \<open>
  C5, as stated, fails: with a render operator that raises for the only pass the call
  returns \<open>False\<close>, and the render count has gone from 0 to 1.
\<close>

theorem statistics_on_failure_counterexample:
  "fst (render_from_camera failing_host (Some (default_camera ''Shot A'' ''Ext'')) False False studio_scene) = False
   \<and> total_renders (shotmaster_settings studio_scene) = 0
   \<and> total_renders (shotmaster_settings (snd (render_from_camera failing_host
        (Some (default_camera ''Shot A'' ''Ext'')) False False studio_scene))) = 1"
  by (simp add: render_from_camera_def finally_restore_def restore_render_settings_def
        update_statistics_def render_body_def passes_to_render_def render_pass_step_def
        get_camera_output_path_def Let_def failing_host_def example_defs setup_defs)

lemma render_body_nothing_to_do:
  assumes "use_render_passes cam" and "filter enabled (render_passes cam) = []"
    and "\<not> (v \<and> \<not> a)"
  shows "render_body h cam a v s = (Inr False, s)"
  using assms by (auto simp: render_body_def passes_to_render_def Let_def)

text \<open>
  C10, amended. A camera that uses passes and has no enabled pass, rendered other than as a
  viewport still: no render operator is called and the call returns \<open>False\<close>.
\<close>

theorem no_enabled_pass_no_render:
  assumes "use_render_passes cam" and "filter enabled (render_passes cam) = []"
    and "\<not> (is_viewport \<and> \<not> render_animation)"
  shows "fst (render_from_camera h (Some cam) render_animation is_viewport s) = False
       \<and> engine_log (snd (render_from_camera h (Some cam) render_animation is_viewport s)) = engine_log s"
proof (cases "obj_type cam = ''CAMERA''")
  case False
  then show ?thesis by (simp add: render_from_camera_def)
next
  case True
  obtain r s1 where su: "setup_render_settings h cam is_viewport s = (r, s1)"
    by (cases "setup_render_settings h cam is_viewport s")
  note F = setup_frame [OF su]
  show ?thesis
  proof (cases r)
    case (Inl e)
    with True su F show ?thesis by (simp add: render_from_camera_cases)
  next
    case (Inr original)
    with True su F render_body_nothing_to_do [OF assms, of h s1] show ?thesis
      by (simp add: render_from_camera_cases restore_frame update_statistics_cases)
  qed
qed

theorem no_enabled_pass_no_render_witness:
  "fst (render_from_camera plain_host (Some idle_camera) False False studio_scene) = False
   \<and> engine_log (snd (render_from_camera plain_host (Some idle_camera) False False studio_scene)) = []"
  using no_enabled_pass_no_render [of idle_camera False False plain_host studio_scene]
  by (simp add: idle_camera_def default_camera_def studio_scene_def)

text \<open>
  C10, as stated, fails for a viewport still: the pass list is not consulted, the viewport
  render operator is called once and the call returns \<open>True\<close>.
\<close>

theorem viewport_ignores_passes_counterexample:
  "use_render_passes idle_camera \<and> filter enabled (render_passes idle_camera) = []
   \<and> fst (render_from_camera plain_host (Some idle_camera) False True studio_scene) = True
   \<and> engine_log (snd (render_from_camera plain_host (Some idle_camera) False True studio_scene)) = [OpenGL True]"
  by (simp add: render_from_camera_def finally_restore_def restore_render_settings_def
        update_statistics_def render_body_def Let_def idle_camera_def example_defs setup_defs)

subsection \<open>What a call leaves behind in the scene\<close>

lemmas render_defs = render_from_camera_def finally_restore_def restore_render_settings_def
  update_statistics_def render_body_def passes_to_render_def render_pass_step_def
  get_camera_output_path_def Let_def

text \<open>
  C1. After a successful render the engine is back at its value, but the Cycles sample
  count and the view layer of the window are those setup wrote: the snapshot has neither
  key, and restore writes neither back.
\<close>

theorem samples_and_view_layer_not_restored:
  "fst (render_from_camera plain_host (Some alt_camera) False False studio_scene) = True
   \<and> scene_render_engine (snd (render_from_camera plain_host (Some alt_camera) False False studio_scene))
       = scene_render_engine studio_scene
   \<and> scene_cycles_samples studio_scene = 32
   \<and> scene_cycles_samples (snd (render_from_camera plain_host (Some alt_camera) False False studio_scene)) = 128
   \<and> window_view_layer studio_scene = ''ViewLayer''
   \<and> window_view_layer (snd (render_from_camera plain_host (Some alt_camera) False False studio_scene)) = ''Alt''"
  by (simp add: render_defs alt_camera_def example_defs setup_defs)

text \<open>
  C2. Where the host rejects the camera's engine, setup raises after the master stage has
  been written. The name \<^verbatim>\<open>original_settings\<close> is then unbound in \<^verbatim>\<open>finally\<close>, the
  restore does not run, and engine and resolution stay at the master's values.
\<close>

theorem setup_raise_skips_restore:
  "fst (setup_render_settings strict_host eevee_camera False studio_scene) = Inl TypeError
   \<and> fst (render_from_camera strict_host (Some eevee_camera) False False studio_scene) = False
   \<and> scene_render_engine studio_scene = ''BLENDER_WORKBENCH''
   \<and> scene_render_engine (snd (render_from_camera strict_host (Some eevee_camera) False False studio_scene)) = ''CYCLES''
   \<and> render_resolution_x studio_scene = 800
   \<and> render_resolution_x (snd (render_from_camera strict_host (Some eevee_camera) False False studio_scene)) = 1920"
  by (simp add: render_defs eevee_camera_def strict_host_def example_defs setup_defs)

lemma restore_snapshot_fields:
  "scene_render_engine (restore_render_settings (snapshot s) s') = scene_render_engine s
   \<and> render_resolution_x (restore_render_settings (snapshot s) s') = render_resolution_x s
   \<and> render_resolution_y (restore_render_settings (snapshot s) s') = render_resolution_y s
   \<and> render_resolution_percentage (restore_render_settings (snapshot s) s') = render_resolution_percentage s
   \<and> render_filepath (restore_render_settings (snapshot s) s') = render_filepath s
   \<and> render_file_format (restore_render_settings (snapshot s) s') = render_file_format s
   \<and> scene_camera (restore_render_settings (snapshot s) s') = scene_camera s
   \<and> frame_start (restore_render_settings (snapshot s) s') = frame_start s
   \<and> frame_end (restore_render_settings (snapshot s) s') = frame_end s"
  by (simp add: restore_render_settings_def snapshot_def)

text \<open>Where setup returns, the call ends in a restore of the snapshot of the scene it started in.\<close>

lemma restored_when_setup_returns:
  assumes "obj_type cam = ''CAMERA''"
    and "setup_render_settings h cam v s = (Inr original, s1)"
  shows "\<exists>s2. snd (render_from_camera h (Some cam) a v s) = restore_render_settings (snapshot s) s2"
proof -
  from assms(2) have o: "original = snapshot s" by (rule setup_stages)
  obtain b s2 where bo: "render_body h cam a v s1 = (b, s2)"
    by (cases "render_body h cam a v s1")
  show ?thesis
    using assms bo o by (cases b) (auto simp: render_from_camera_cases split: sum.splits)
qed

subsection \<open>A group name that no group has\<close>

text \<open>
  C7, as stated, fails on the path: the group segment is the sanitized group name of the
  camera, whether or not a group of that name exists, and not "ungrouped".
\<close>

theorem dangling_group_path_counterexample:
  "group orphan_camera \<noteq> [] \<and> camera_group_of studio_scene orphan_camera = None
   \<and> get_camera_output_path plain_host studio_scene orphan_camera False None = ''root/Gone/Shot_A/stills''
   \<and> get_camera_output_path plain_host studio_scene (orphan_camera\<lparr>group := []\<rparr>) False None
       = ''root/ungrouped/Shot_A/stills''"
  by (simp add: camera_group_of_def get_camera_output_path_def orphan_camera_def example_defs
        sanitize_def strip_def replace_spaces_def py_isalnum_def py_isspace_def)

lemma apply_group_dangling:
  assumes "\<forall>g\<in>set (shotmaster_camera_groups s). name g \<noteq> group cam"
  shows "apply_group h cam s = Inr s" and "apply_group h (cam\<lparr>group := []\<rparr>) s = Inr s"
proof -
  from assms have "find (\<lambda>g. name g = group cam) (shotmaster_camera_groups s) = None"
    by (simp add: find_None_iff)
  then show "apply_group h cam s = Inr s" by (simp add: apply_group_def)
  show "apply_group h (cam\<lparr>group := []\<rparr>) s = Inr s" by (simp add: apply_group_def)
qed

lemma apply_render_settings_group_field:
  "apply_render_settings h (cam\<lparr>group := g\<rparr>) s = apply_render_settings h cam s"
  by (simp add: apply_render_settings_def split: sum.splits)

lemma apply_view_layer_group_field:
  "apply_view_layer (cam\<lparr>group := g\<rparr>) s = apply_view_layer cam s"
  by (simp add: apply_view_layer_def)

lemma apply_camera_group_field:
  "(case apply_camera h cam v s of Inl e \<Rightarrow> Inl e | Inr s' \<Rightarrow> Inr (s'\<lparr>scene_camera := c\<rparr>))
   = (case apply_camera h (cam\<lparr>group := g\<rparr>) v s of Inl e \<Rightarrow> Inl e | Inr s' \<Rightarrow> Inr (s'\<lparr>scene_camera := c\<rparr>))"
proof (cases "apply_render_settings h cam s")
  case (Inl e)
  then show ?thesis
    by (simp add: apply_camera_def apply_render_settings_group_field)
next
  case (Inr s1)
  then show ?thesis
    by (cases v; cases "use_custom_frames cam")
       (simp_all add: apply_camera_def apply_render_settings_group_field
          apply_view_layer_group_field Let_def)
qed

lemma setup_dangling:
  assumes "\<forall>g\<in>set (shotmaster_camera_groups s). name g \<noteq> group cam"
  shows "map_prod id (\<lambda>s'. s'\<lparr>scene_camera := c\<rparr>) (setup_render_settings h cam v s)
       = map_prod id (\<lambda>s'. s'\<lparr>scene_camera := c\<rparr>) (setup_render_settings h (cam\<lparr>group := []\<rparr>) v s)"
proof (cases "apply_master h s")
  case (Inl e)
  then show ?thesis by (simp add: setup_render_settings_def)
next
  case m: (Inr s1)
  from apply_master_fields [OF m] assms
  have "\<forall>g\<in>set (shotmaster_camera_groups s1). name g \<noteq> group cam" by simp
  note G = apply_group_dangling [OF this]
  show ?thesis
    using apply_camera_group_field [where h = h and cam = cam and v = v and s = s1 and c = c and g = "[]"]
    by (cases "apply_camera h cam v s1"; cases "apply_camera h (cam\<lparr>group := []\<rparr>) v s1")
       (simp_all add: setup_render_settings_def m G)
qed

lemma path_dangling:
  assumes "group cam \<noteq> []"
    and "\<forall>g\<in>set (shotmaster_camera_groups s). name g \<noteq> group cam"
  shows "get_camera_output_path h s cam a p
       = path_join (ungrouped_base_path h s cam) (sanitize (group cam) # path_tail cam a p)"
proof -
  from assms(2)
  have "find (\<lambda>g. name g = group cam \<and> use_custom_output_path g) (shotmaster_camera_groups s) = None"
    by (auto simp: find_None_iff)
  with assms(1) show ?thesis
    by (cases p)
       (simp_all add: get_camera_output_path_def ungrouped_base_path_def path_tail_def Let_def
          path_join_append del: path_join.simps)
qed

lemma path_ungrouped:
  "get_camera_output_path h s (cam\<lparr>group := []\<rparr>) a p
     = path_join (ungrouped_base_path h s cam) (''ungrouped'' # path_tail cam a p)"
  by (cases p)
     (simp_all add: get_camera_output_path_def ungrouped_base_path_def path_tail_def Let_def
        path_join_append del: path_join.simps)

text \<open>
  C7, amended. For a camera whose non-empty group name no group has, setup behaves as for
  the same camera without a group: the same result (it raises exactly where the ungrouped
  camera's setup raises) and the same scene but for the camera object made active; the base
  directory of the output path is the ungrouped one. The group segment of the path is the
  sanitized group name, where the ungrouped camera has "ungrouped".
\<close>

theorem dangling_group_settings_as_ungrouped:
  assumes "group cam \<noteq> []"
    and "\<forall>g\<in>set (shotmaster_camera_groups s). name g \<noteq> group cam"
  shows "map_prod id (\<lambda>s'. s'\<lparr>scene_camera := c\<rparr>) (setup_render_settings h cam v s)
       = map_prod id (\<lambda>s'. s'\<lparr>scene_camera := c\<rparr>) (setup_render_settings h (cam\<lparr>group := []\<rparr>) v s)
       \<and> get_camera_output_path h s cam a p
         = path_join (ungrouped_base_path h s cam) (sanitize (group cam) # path_tail cam a p)
       \<and> get_camera_output_path h s (cam\<lparr>group := []\<rparr>) a p
         = path_join (ungrouped_base_path h s cam) (''ungrouped'' # path_tail cam a p)"
  using setup_dangling [OF assms(2)] path_dangling [OF assms] path_ungrouped by simp

theorem dangling_group_settings_as_ungrouped_witness:
  "map_prod id (\<lambda>s'. s'\<lparr>scene_camera := None\<rparr>) (setup_render_settings plain_host orphan_camera False studio_scene)
     = map_prod id (\<lambda>s'. s'\<lparr>scene_camera := None\<rparr>)
         (setup_render_settings plain_host (orphan_camera\<lparr>group := []\<rparr>) False studio_scene)
   \<and> get_camera_output_path plain_host studio_scene orphan_camera True (Some ''depth'')
     = path_join ''root/'' [sanitize ''Gone'', sanitize ''Shot A'', ''animation'', ''depth'']"
  using dangling_group_settings_as_ungrouped
          [where cam = orphan_camera and s = studio_scene and c = None and h = plain_host
             and v = False and a = True and p = "Some ''depth''"]
  by (simp add: orphan_camera_def ungrouped_base_path_def path_tail_def example_defs)

subsection \<open>The pass loop\<close>

lemma output_dir_for_reads:
  assumes "shotmaster_settings s' = shotmaster_settings s"
    and "shotmaster_camera_groups s' = shotmaster_camera_groups s"
  shows "output_dir_for h s' cam a p = output_dir_for h s cam a p"
  using output_path_reads [of s' s h cam a p] assms by (simp add: output_dir_for_def)

lemma render_pass_step_made:
  assumes "output_dir_for h s cam a p = Some d"
  shows "render_pass_step h cam a p (b, s) =
           (b \<or> render_ok h (length (engine_log s)),
            s\<lparr>render_filepath := path_join d [pass_filename cam p],
              engine_log := engine_log s @ [Render (path_join d [pass_filename cam p]) a
                                               (render_ok h (length (engine_log s)))]\<rparr>)"
  using assms
  by (auto simp: render_pass_step_def output_dir_for_def pass_filename_def Let_def
        simp del: path_join.simps split: if_splits option.splits)

lemma render_each_pass_log:
  assumes "\<forall>p\<in>set ps. output_dir_for h s cam a p \<noteq> None"
    and "shotmaster_settings s0 = shotmaster_settings s"
    and "shotmaster_camera_groups s0 = shotmaster_camera_groups s"
  shows "engine_log (snd (render_each_pass h cam a ps (b, s0)))
           = engine_log s0 @ expected_calls h s cam a (length (engine_log s0)) ps
       \<and> fst (render_each_pass h cam a ps (b, s0))
           = (b \<or> (\<exists>i<length ps. render_ok h (length (engine_log s0) + i)))"
  using assms
proof (induction ps arbitrary: b s0)
  case Nil
  then show ?case by simp
next
  case (Cons p ps)
  from Cons.prems(1) obtain d where d: "output_dir_for h s cam a p = Some d" by auto
  then have d0: "output_dir_for h s0 cam a p = Some d"
    using output_dir_for_reads [OF Cons.prems(2,3)] by simp
  define ok where "ok = render_ok h (length (engine_log s0))"
  define t where "t = s0\<lparr>render_filepath := path_join d [pass_filename cam p],
                         engine_log := engine_log s0 @ [Render (path_join d [pass_filename cam p]) a ok]\<rparr>"
  have step: "render_pass_step h cam a p (b, s0) = (b \<or> ok, t)"
    using render_pass_step_made [OF d0] by (simp add: ok_def t_def)
  have t: "shotmaster_settings t = shotmaster_settings s"
    "shotmaster_camera_groups t = shotmaster_camera_groups s"
    "engine_log t = engine_log s0 @ [Render (pass_filepath h s cam a p) a ok]"
    using Cons.prems(2,3) d by (simp_all add: t_def pass_filepath_def)
  from Cons.prems(1) have "\<forall>p\<in>set ps. output_dir_for h s cam a p \<noteq> None" by simp
  from Cons.IH [OF this t(1,2), of "b \<or> ok"]
  show ?case
    by (simp add: step t(3) ok_def Ex_less_Suc2 disj_assoc del: path_join.simps)
qed


lemma passes_to_render_names:
  assumes "use_render_passes cam" and "map name (filter enabled (render_passes cam)) = ns"
  shows "passes_to_render cam = map Some ns"
  using assms by (auto simp: passes_to_render_def)

lemma render_passes_result:
  assumes "obj_type cam = ''CAMERA''" and "use_render_passes cam"
    and "map name (filter enabled (render_passes cam)) = ns"
    and "setup_render_settings h cam False s = (Inr original, s1)"
    and "\<forall>p\<in>set ns. output_dir_for h s cam a (Some p) \<noteq> None"
    and "total_renders (shotmaster_settings s) < 2147483647"
  shows "fst (render_from_camera h (Some cam) a False s)
           = (\<exists>i<length ns. render_ok h (length (engine_log s) + i))
       \<and> engine_log (snd (render_from_camera h (Some cam) a False s))
           = engine_log s @ expected_calls h s cam a (length (engine_log s)) (map Some ns)"
proof -
  note F = setup_frame [OF assms(4)]
  have ps: "passes_to_render cam = map Some ns"
    by (rule passes_to_render_names [OF assms(2,3)])
  have av: "\<forall>p\<in>set (map Some ns). output_dir_for h s cam a p \<noteq> None"
    using assms(5) by simp
  define r where "r = render_each_pass h cam a (map Some ns) (False, s1)"
  have L: "engine_log (snd r)
             = engine_log s1 @ expected_calls h s cam a (length (engine_log s1)) (map Some ns)
           \<and> fst r = (False \<or> (\<exists>i<length (map Some ns). render_ok h (length (engine_log s1) + i)))"
    unfolding r_def using F by (intro render_each_pass_log [OF av]) simp_all
  have S: "shotmaster_settings (snd r) = shotmaster_settings s"
    unfolding r_def using render_each_pass_settings [of h cam a "map Some ns" "(False, s1)"] F
    by simp
  have "\<exists>u. update_statistics h (snd r) = Inr u"
    using assms(6) by (simp add: update_statistics_cases S)
  then obtain u where u: "update_statistics h (snd r) = Inr u" ..
  have body: "render_body h cam a False s1 = (Inr (fst r), snd r)"
    by (simp add: render_body_def ps r_def Let_def)
  have res: "render_from_camera h (Some cam) a False s = (fst r, restore_render_settings original u)"
    by (simp add: render_from_camera_cases [OF assms(1)] assms(4) body u)
  show ?thesis
    using L F update_statistics_frame [OF u] by (simp add: res restore_frame)
qed

text \<open>
  C4, amended. A job over three enabled passes, rendered to file, whose setup returns, whose
  directories (or the fallback) can be made, and whose render count is below 2147483647:
  every pass is rendered in its turn, each to its own file path, whatever became of the
  passes before it, and the call returns a flag, \<open>True\<close> exactly when at least one render
  call succeeded. So where the call fails for exactly one pass \<open>k\<close> the two others are
  rendered and the flag is \<open>True\<close>, the value returned when all three succeed; \<open>False\<close>
  is returned when all three fail. There is no third outcome.
\<close>

theorem one_failed_pass_reports_success:
  assumes "obj_type cam = ''CAMERA''" and "use_render_passes cam"
    and "map name (filter enabled (render_passes cam)) = [p1, p2, p3]"
    and "setup_render_settings h cam False s = (Inr original, s1)"
    and "\<forall>p\<in>set [p1, p2, p3]. output_dir_for h s cam a (Some p) \<noteq> None"
    and "total_renders (shotmaster_settings s) < 2147483647"
  shows "engine_log (snd (render_from_camera h (Some cam) a False s))
         = engine_log s @ [Render (pass_filepath h s cam a (Some p1)) a (render_ok h (length (engine_log s))),
                           Render (pass_filepath h s cam a (Some p2)) a (render_ok h (length (engine_log s) + 1)),
                           Render (pass_filepath h s cam a (Some p3)) a (render_ok h (length (engine_log s) + 2))]
       \<and> fst (render_from_camera h (Some cam) a False s)
         = (render_ok h (length (engine_log s)) \<or> render_ok h (length (engine_log s) + 1)
            \<or> render_ok h (length (engine_log s) + 2))
       \<and> (\<forall>k<3. (\<forall>i<3. render_ok h (length (engine_log s) + i) = (i \<noteq> k))
            \<longrightarrow> fst (render_from_camera h (Some cam) a False s) = True)
       \<and> ((\<forall>i<3. render_ok h (length (engine_log s) + i))
            \<longrightarrow> fst (render_from_camera h (Some cam) a False s) = True)
       \<and> ((\<forall>i<3. \<not> render_ok h (length (engine_log s) + i))
            \<longrightarrow> fst (render_from_camera h (Some cam) a False s) = False)"
proof -
  let ?n = "length (engine_log s)"
  let ?r = "fst (render_from_camera h (Some cam) a False s)"
  have three: "(\<exists>i<length [p1, p2, p3]. render_ok h (?n + i))
      = (render_ok h ?n \<or> render_ok h (?n + 1) \<or> render_ok h (?n + 2))"
    by (simp add: Ex_less_Suc2 numeral_2_eq_2)
  note R = render_passes_result [OF assms(1-6), unfolded three]
  have log: "engine_log (snd (render_from_camera h (Some cam) a False s))
         = engine_log s @ [Render (pass_filepath h s cam a (Some p1)) a (render_ok h ?n),
                           Render (pass_filepath h s cam a (Some p2)) a (render_ok h (?n + 1)),
                           Render (pass_filepath h s cam a (Some p3)) a (render_ok h (?n + 2))]"
    using R by (simp add: numeral_2_eq_2)
  have flag: "?r = (render_ok h ?n \<or> render_ok h (?n + 1) \<or> render_ok h (?n + 2))"
    using R by simp
  have one: "\<forall>k<3. (\<forall>i<3. render_ok h (?n + i) = (i \<noteq> k)) \<longrightarrow> ?r = True"
  proof (intro allI impI)
    fix k :: nat
    assume k: "k < 3" and e: "\<forall>i<3. render_ok h (?n + i) = (i \<noteq> k)"
    from e [rule_format, of 0] e [rule_format, of 1] have "render_ok h ?n \<or> render_ok h (?n + 1)"
      by auto
    with flag show "?r = True" by auto
  qed
  have all: "(\<forall>i<3. render_ok h (?n + i)) \<longrightarrow> ?r = True"
  proof
    assume e: "\<forall>i<3. render_ok h (?n + i)"
    from e [rule_format, of 0] flag show "?r = True" by auto
  qed
  have none: "(\<forall>i<3. \<not> render_ok h (?n + i)) \<longrightarrow> ?r = False"
  proof
    assume e: "\<forall>i<3. \<not> render_ok h (?n + i)"
    from e [rule_format, of 0] e [rule_format, of 1] e [rule_format, of 2] flag
    show "?r = False" by (auto simp: numeral_2_eq_2)
  qed
  from log flag one all none show ?thesis by blast
qed

theorem one_failed_pass_reports_success_witness:
  "fst (render_from_camera flaky_host (Some layered_camera) False False studio_scene) = True
   \<and> engine_log (snd (render_from_camera flaky_host (Some layered_camera) False False studio_scene))
     = [Render (pass_filepath flaky_host studio_scene layered_camera False (Some ''beauty'')) False True,
        Render (pass_filepath flaky_host studio_scene layered_camera False (Some ''depth'')) False False,
        Render (pass_filepath flaky_host studio_scene layered_camera False (Some ''mist'')) False True]"
proof -
  have su: "setup_render_settings flaky_host layered_camera False studio_scene
     = (Inr (snapshot studio_scene), snd (setup_render_settings flaky_host layered_camera False studio_scene))"
    by (simp add: layered_camera_def flaky_host_def example_defs setup_defs)
  have av: "\<forall>p\<in>set [''beauty'', ''depth'', ''mist''].
              output_dir_for flaky_host studio_scene layered_camera False (Some p) \<noteq> None"
    by (simp add: output_dir_for_def flaky_host_def plain_host_def Let_def)
  have fl: "render_ok flaky_host = (\<lambda>n. n \<noteq> 1)"
    by (simp add: flaky_host_def plain_host_def)
  have n: "engine_log studio_scene = []" "total_renders (shotmaster_settings studio_scene) < 2147483647"
    by (simp_all add: studio_scene_def default_settings_def)
  have ps: "map name (filter enabled (render_passes layered_camera)) = [''beauty'', ''depth'', ''mist'']"
    by (simp add: layered_camera_def default_camera_def)
  have ty: "obj_type layered_camera = ''CAMERA''" "use_render_passes layered_camera"
    by (simp_all add: layered_camera_def default_camera_def)
  show ?thesis
    using one_failed_pass_reports_success [OF ty ps su av n(2)]
    by (simp add: n(1) fl)
qed


subsection \<open>One failing pass among three\<close>

lemmas sanitize_defs = sanitize_def strip_def replace_spaces_def py_isalnum_def py_isspace_def

lemma layered_camera_passes:
  "obj_type layered_camera = ''CAMERA''" "use_render_passes layered_camera"
  "map name (filter enabled (render_passes layered_camera)) = [''beauty'', ''depth'', ''mist'']"
  by (simp_all add: layered_camera_def default_camera_def)

lemma layered_camera_setup:
  "setup_render_settings flaky_host layered_camera False studio_scene
     = (Inr (snapshot studio_scene), snd (setup_render_settings flaky_host layered_camera False studio_scene))"
  "setup_render_settings plain_host layered_camera False studio_scene
     = (Inr (snapshot studio_scene), snd (setup_render_settings plain_host layered_camera False studio_scene))"
  by (simp_all add: layered_camera_def flaky_host_def example_defs setup_defs)

lemma output_path_host:
  assumes "abspath h = abspath h'"
  shows "get_camera_output_path h s cam a p = get_camera_output_path h' s cam a p"
  unfolding get_camera_output_path_def assms by (rule refl)

lemma layered_camera_dirs:
  "output_dir_for flaky_host studio_scene layered_camera False (Some p)
     = Some (get_camera_output_path plain_host studio_scene layered_camera False (Some p))"
  "output_dir_for plain_host studio_scene layered_camera False (Some p)
     = Some (get_camera_output_path plain_host studio_scene layered_camera False (Some p))"
proof -
  have "abspath flaky_host = abspath plain_host" by (simp add: flaky_host_def)
  from output_path_host [OF this]
  show "output_dir_for flaky_host studio_scene layered_camera False (Some p)
     = Some (get_camera_output_path plain_host studio_scene layered_camera False (Some p))"
    by (simp add: output_dir_for_def flaky_host_def plain_host_def)
  show "output_dir_for plain_host studio_scene layered_camera False (Some p)
     = Some (get_camera_output_path plain_host studio_scene layered_camera False (Some p))"
    by (simp add: output_dir_for_def plain_host_def)
qed

lemma layered_camera_paths:
  "get_camera_output_path plain_host studio_scene layered_camera False (Some ''beauty'')
     = ''root/Ext/Shot_A/stills/beauty''"
  "get_camera_output_path plain_host studio_scene layered_camera False (Some ''depth'')
     = ''root/Ext/Shot_A/stills/depth''"
  "get_camera_output_path plain_host studio_scene layered_camera False (Some ''mist'')
     = ''root/Ext/Shot_A/stills/mist''"
  by (simp_all add: get_camera_output_path_def layered_camera_def example_defs sanitize_Ext sanitize_Shot_A)

lemma layered_camera_filenames:
  "pass_filename layered_camera (Some ''beauty'') = ''shot_Shot A_beauty''"
  "pass_filename layered_camera (Some ''depth'') = ''shot_Shot A_depth''"
  "pass_filename layered_camera (Some ''mist'') = ''shot_Shot A_mist''"
  by (simp_all add: pass_filename_def layered_camera_def default_camera_def)

text \<open>
  C4, as stated, fails: the job whose second pass fails (\<open>Partial\<close> in the
  specification's words) and the job whose passes all succeed (\<open>Success\<close>) return the
  same value, \<open>True\<close>. No outcome "partial" is reported.
\<close>

theorem partial_reported_as_success_counterexample:
  "spec_outcome [True, False, True] = Partial \<and> spec_outcome [True, True, True] = Success
   \<and> engine_log (snd (render_from_camera flaky_host (Some layered_camera) False False studio_scene))
     = [Render ''root/Ext/Shot_A/stills/beauty/shot_Shot A_beauty'' False True,
        Render ''root/Ext/Shot_A/stills/depth/shot_Shot A_depth'' False False,
        Render ''root/Ext/Shot_A/stills/mist/shot_Shot A_mist'' False True]
   \<and> engine_log (snd (render_from_camera plain_host (Some layered_camera) False False studio_scene))
     = [Render ''root/Ext/Shot_A/stills/beauty/shot_Shot A_beauty'' False True,
        Render ''root/Ext/Shot_A/stills/depth/shot_Shot A_depth'' False True,
        Render ''root/Ext/Shot_A/stills/mist/shot_Shot A_mist'' False True]
   \<and> fst (render_from_camera flaky_host (Some layered_camera) False False studio_scene) = True
   \<and> fst (render_from_camera plain_host (Some layered_camera) False False studio_scene) = True"
proof -
  have sp: "spec_outcome [True, False, True] = Partial \<and> spec_outcome [True, True, True] = Success"
    by (simp add: spec_outcome_def)
  have n: "engine_log studio_scene = []" by (simp add: studio_scene_def)
  have fp: "pass_filepath flaky_host studio_scene layered_camera False (Some ''beauty'') = ''root/Ext/Shot_A/stills/beauty/shot_Shot A_beauty''"
    "pass_filepath flaky_host studio_scene layered_camera False (Some ''depth'') = ''root/Ext/Shot_A/stills/depth/shot_Shot A_depth''"
    "pass_filepath flaky_host studio_scene layered_camera False (Some ''mist'') = ''root/Ext/Shot_A/stills/mist/shot_Shot A_mist''"
    "pass_filepath plain_host studio_scene layered_camera False (Some ''beauty'') = ''root/Ext/Shot_A/stills/beauty/shot_Shot A_beauty''"
    "pass_filepath plain_host studio_scene layered_camera False (Some ''depth'') = ''root/Ext/Shot_A/stills/depth/shot_Shot A_depth''"
    "pass_filepath plain_host studio_scene layered_camera False (Some ''mist'') = ''root/Ext/Shot_A/stills/mist/shot_Shot A_mist''"
    by (simp_all add: pass_filepath_def layered_camera_dirs layered_camera_paths layered_camera_filenames)
  have ro: "render_ok flaky_host = (\<lambda>n. n \<noteq> 1)" "render_ok plain_host = (\<lambda>n. True)"
    by (simp_all add: flaky_host_def plain_host_def)
  have fl: "fst (render_from_camera flaky_host (Some layered_camera) False False studio_scene)
      = (\<exists>i<length [''beauty'', ''depth'', ''mist'']. render_ok flaky_host (length (engine_log studio_scene) + i))
    \<and> engine_log (snd (render_from_camera flaky_host (Some layered_camera) False False studio_scene))
      = engine_log studio_scene @ expected_calls flaky_host studio_scene layered_camera False
          (length (engine_log studio_scene)) (map Some [''beauty'', ''depth'', ''mist''])"
  proof (rule render_passes_result [OF layered_camera_passes layered_camera_setup(1)])
    show "total_renders (shotmaster_settings studio_scene) < 2147483647"
      by (simp add: studio_scene_def default_settings_def)
  qed (simp add: layered_camera_dirs)
  have pl: "fst (render_from_camera plain_host (Some layered_camera) False False studio_scene)
      = (\<exists>i<length [''beauty'', ''depth'', ''mist'']. render_ok plain_host (length (engine_log studio_scene) + i))
    \<and> engine_log (snd (render_from_camera plain_host (Some layered_camera) False False studio_scene))
      = engine_log studio_scene @ expected_calls plain_host studio_scene layered_camera False
          (length (engine_log studio_scene)) (map Some [''beauty'', ''depth'', ''mist''])"
  proof (rule render_passes_result [OF layered_camera_passes layered_camera_setup(2)])
    show "total_renders (shotmaster_settings studio_scene) < 2147483647"
      by (simp add: studio_scene_def default_settings_def)
  qed (simp add: layered_camera_dirs)
  have ex: "\<exists>i<Suc (Suc (Suc 0)). i \<noteq> Suc 0" "\<exists>i::nat. i < Suc (Suc (Suc 0))"
    by (intro exI [of _ 0], simp)+
  show ?thesis
    using sp fl pl ex by (simp add: n fp ro)
qed

end
